theory Spec2Isabelle
  imports Main "HOL-Library.Sublist"
begin

text \<open>
  A model of the AI Logo Animator: the gateway \<^verbatim>\<open>services/geminiService.ts\<close>
  (\<open>getApiKey\<close>, \<open>generateLogo\<close>, \<open>animateLogo\<close>) and the handlers of the component in
  \<^verbatim>\<open>App.tsx\<close>. The remote service, the environment variable, the host's credential
  interface, the file reader and \<^verbatim>\<open>fetch\<close> are outside the program: a record \<open>host\<close>
  holds their answers, and every theorem holds for every host. What the program does to the
  outside is recorded in a \<open>world\<close>: the trace of the calls it made, in order, and its
  running timers.
\<close>

section \<open>JavaScript values used by the program\<close>

text \<open>
  A thrown value is an object whose \<open>message\<close> property may be missing: the handlers of
  \<^verbatim>\<open>App.tsx\<close> read it as \<^verbatim>\<open>e.message?.includes(...)\<close>. A message that is there is a
  string. \<^verbatim>\<open>new Error(msg)\<close> is \<open>JsError msg\<close>.
\<close>

datatype js_error = Thrown (message: "string option")

abbreviation JsError :: "string \<Rightarrow> js_error" where
  "JsError msg \<equiv> Thrown (Some msg)"

text \<open>Truthiness of a possibly undefined string (\<^verbatim>\<open>!key\<close>, \<^verbatim>\<open>!downloadLink\<close>) and of a
  possibly undefined boolean (\<^verbatim>\<open>!operation.done\<close>).\<close>

fun truthy_string :: "string option \<Rightarrow> bool" where
  "truthy_string None = False"
| "truthy_string (Some s) = (s \<noteq> [])"

fun truthy_bool :: "bool option \<Rightarrow> bool" where
  "truthy_bool None = False"
| "truthy_bool (Some b) = b"

text \<open>A value inside a template literal: \<^verbatim>\<open>`${v}`\<close> prints undefined as the word.\<close>

fun template :: "string option \<Rightarrow> string" where
  "template None = ''undefined''"
| "template (Some s) = s"

text \<open>\<^verbatim>\<open>s.includes(sub)\<close>: some position of \<open>s\<close> starts with \<open>sub\<close>.\<close>

fun str_includes :: "string \<Rightarrow> string \<Rightarrow> bool" where
  "str_includes [] sub = (sub = [])"
| "str_includes (c # cs) sub = (prefix sub (c # cs) \<or> str_includes cs sub)"

text \<open>
  \<^verbatim>\<open>s.trim()\<close> removes white space and line terminators from both ends. Strings are
  modelled with 8-bit characters, so the white space of ECMAScript that is representable
  is tab, line feed, vertical tab, form feed, carriage return, space and no-break space.
\<close>

definition isWhiteSpace :: "char \<Rightarrow> bool" where
  "isWhiteSpace c = (c \<in> set [CHR 0x09, CHR 0x0A, CHR 0x0B, CHR 0x0C, CHR 0x0D, CHR 0x20, CHR 0xA0])"

definition trim :: "string \<Rightarrow> string" where
  "trim s = rev (dropWhile isWhiteSpace (rev (dropWhile isWhiteSpace s)))"

section \<open>Types of \<^verbatim>\<open>types.ts\<close> and of the remote service's answers\<close>

datatype AspectRatio = Ratio_16_9 | Ratio_9_16

text \<open>
  \<open>base64\<close> is declared a string; at run time it holds whatever \<open>generateLogo\<close>
  returned, which can be undefined (see \<open>generateLogo\<close>), so the field is optional here.
\<close>

record ImageData =
  base64 :: "string option"
  mimeType :: string

text \<open>
  The answers of the remote service are objects read by property access. A property that
  is missing reads as undefined, so every property the source reads is optional in the
  model. Field names carry a prefix where the source's name is taken in HOL.
\<close>

record Image =
  imageBytes :: "string option"

record GeneratedImage =
  gi_image :: "Image option"

record GenerateImagesResponse =
  generatedImages :: "GeneratedImage list option"

record Video =
  uri :: "string option"

record GeneratedVideo =
  gv_video :: "Video option"

record GenerateVideosResponse =
  generatedVideos :: "GeneratedVideo list option"

record Operation =
  op_done :: "bool option"
  op_response :: "GenerateVideosResponse option"

text \<open>The answer of \<^verbatim>\<open>fetch\<close>: \<open>blob\<close> is the outcome of reading the body.\<close>

record FetchResponse =
  ok :: bool
  statusText :: string
  blob :: "js_error + string"

record File =
  file_type :: string
  file_content :: string

section \<open>The requests the program sends, and the world it runs in\<close>

record GenerateImagesParams =
  gip_model :: string
  gip_prompt :: string
  gip_numberOfImages :: nat
  gip_outputMimeType :: string
  gip_aspectRatio :: string

record GenerateVideosParams =
  gvp_model :: string
  gvp_prompt :: string
  gvp_imageBytes :: "string option"
  gvp_mimeType :: string
  gvp_numberOfVideos :: nat
  gvp_resolution :: string
  gvp_aspectRatio :: AspectRatio

text \<open>
  Every call that leaves the program is an event of the trace, in the order the calls are
  made. Calls on the remote client carry the key the client was built with.
\<close>

datatype event =
    GenerateImages string GenerateImagesParams
  | GenerateVideos string GenerateVideosParams
  | SetTimeout nat
  | GetVideosOperation string Operation
  | Fetch string
  | HasSelectedApiKey
  | OpenSelectKey

text \<open>
  A running \<^verbatim>\<open>setInterval\<close> timer of \<open>handleAnimateLogo\<close>, with the local
  \<open>messageIndex\<close> its callback closes over. The world maps the identifiers of the
  running timers to them; \<open>next_interval_id\<close> is the identifier the next
  \<^verbatim>\<open>setInterval\<close> returns.
\<close>

record interval =
  delay :: nat
  messageIndex :: nat

record world =
  env_reads :: nat
  status_calls :: nat
  trace :: "event list"
  next_interval_id :: nat
  intervals :: "nat \<Rightarrow> interval option"

text \<open>
  What is outside the program answers deterministically: \<open>API_KEY k\<close> is the value of
  \<^verbatim>\<open>process.env.API_KEY\<close> at its \<open>k\<close>-th read, \<open>getVideosOperation k\<close> the outcome of the
  \<open>k\<close>-th status query, and so on. \<open>Inl\<close> is a call that throws or a promise that rejects.
  \<open>hasSelectedApiKey\<close> and \<open>openSelectKey\<close> are \<open>None\<close> when the property is not a
  function; \<open>window_aistudio\<close> is \<open>None\<close> when the host object is missing.
\<close>

record aistudio =
  hasSelectedApiKey :: "(js_error + bool) option"
  openSelectKey :: "(js_error + unit) option"

record host =
  API_KEY :: "nat \<Rightarrow> string option"
  generateImages :: "js_error + GenerateImagesResponse"
  generateVideos :: "js_error + Operation"
  getVideosOperation :: "nat \<Rightarrow> js_error + Operation"
  fetch :: "js_error + FetchResponse"
  createObjectURL :: "string \<Rightarrow> string"
  fileToBase64 :: "File \<Rightarrow> js_error + string"
  window_aistudio :: "aistudio option"

section \<open>\<^verbatim>\<open>services/geminiService.ts\<close>\<close>

definition getApiKey :: "host \<Rightarrow> world \<Rightarrow> (js_error + string) \<times> world" where
  "getApiKey h w =
     (let key = API_KEY h (env_reads w);
          w' = w\<lparr>env_reads := env_reads w + 1\<rparr>
      in if \<not> truthy_string key
         then (Inl (JsError ''API_KEY environment variable not set.''), w')
         else (Inr (the key), w'))"

definition generateImagesParams :: "string \<Rightarrow> GenerateImagesParams" where
  "generateImagesParams prompt =
     \<lparr> gip_model = ''imagen-4.0-generate-001'',
       gip_prompt = ''A professional, modern, minimalist logo for a company. The logo should be based on the following description: ''
          @ [CHR 0x22] @ prompt @ [CHR 0x22]
          @ ''. The logo should be on a clean, solid background.'',
       gip_numberOfImages = 1,
       gip_outputMimeType = ''image/png'',
       gip_aspectRatio = ''1:1'' \<rparr>"

text \<open>Reading a property of undefined throws a TypeError; the wording of its message is
  the engine's, here the one of V8, which prints the name of the property between single
  quotes.\<close>

definition TypeError_reading :: "string \<Rightarrow> js_error" where
  "TypeError_reading p =
     JsError (''Cannot read properties of undefined (reading '' @ [CHR 0x27] @ p @ [CHR 0x27] @ '')'')"

definition generateLogo :: "host \<Rightarrow> string \<Rightarrow> world \<Rightarrow> (js_error + string option) \<times> world" where
  "generateLogo h prompt w =
     (case getApiKey h w of
        (Inl e, w1) \<Rightarrow> (Inl e, w1)
      | (Inr key, w1) \<Rightarrow>
          (let w2 = w1\<lparr>trace := trace w1 @ [GenerateImages key (generateImagesParams prompt)]\<rparr>
           in case generateImages h of
                Inl e \<Rightarrow> (Inl e, w2)
              | Inr response \<Rightarrow>
                  (case generatedImages response of
                     Some (g # gs) \<Rightarrow>
                       (case gi_image g of
                          None \<Rightarrow> (Inl (TypeError_reading ''imageBytes''), w2)
                        | Some i \<Rightarrow> (Inr (imageBytes i), w2))
                   | _ \<Rightarrow> (Inl (JsError ''Image generation failed or returned no images.''), w2))))"

definition generateVideosParams :: "string option \<Rightarrow> string \<Rightarrow> AspectRatio \<Rightarrow> GenerateVideosParams" where
  "generateVideosParams image_data mime_type aspect_ratio =
     \<lparr> gvp_model = ''veo-3.1-fast-generate-preview'',
       gvp_prompt = ''Animate this logo with a subtle, professional, and engaging motion. The animation should be clean and elegant.'',
       gvp_imageBytes = image_data,
       gvp_mimeType = mime_type,
       gvp_numberOfVideos = 1,
       gvp_resolution = ''720p'',
       gvp_aspectRatio = aspect_ratio \<rparr>"

text \<open>
  The poll loop, lines 54 to 57: one round waits 5000 ms and then asks for the operation
  again, passing the handle it holds. The loop has no bound, so it is a partial function:
  \<open>None\<close> is the loop that never ends.
\<close>

definition poll_round :: "string \<Rightarrow> Operation \<Rightarrow> world \<Rightarrow> world" where
  "poll_round key operation w =
     w\<lparr>status_calls := status_calls w + 1,
       trace := trace w @ [SetTimeout 5000, GetVideosOperation key operation]\<rparr>"

partial_function (option) poll ::
  "host \<Rightarrow> string \<Rightarrow> Operation \<Rightarrow> world \<Rightarrow> ((js_error + Operation) \<times> world) option" where
  "poll h key operation w =
     (if \<not> truthy_bool (op_done operation)
      then (case getVideosOperation h (status_calls w) of
              Inl e \<Rightarrow> Some (Inl e, poll_round key operation w)
            | Inr operation' \<Rightarrow> poll h key operation' (poll_round key operation w))
      else Some (Inr operation, w))"

declare poll.simps [code]

text \<open>\<^verbatim>\<open>operation.response?.generatedVideos?.[0]?.video?.uri\<close>\<close>

definition downloadLink :: "Operation \<Rightarrow> string option" where
  "downloadLink operation =
     (case op_response operation of
        None \<Rightarrow> None
      | Some r \<Rightarrow>
          (case generatedVideos r of
             None \<Rightarrow> None
           | Some [] \<Rightarrow> None
           | Some (g # gs) \<Rightarrow>
               (case gv_video g of
                  None \<Rightarrow> None
                | Some v \<Rightarrow> uri v)))"

text \<open>Lines 59 to 69: what \<open>animateLogo\<close> does with the handle the loop ends with.\<close>

definition download :: "host \<Rightarrow> Operation \<Rightarrow> world \<Rightarrow> (js_error + string) \<times> world" where
  "download h operation w =
     (if \<not> truthy_string (downloadLink operation)
      then (Inl (JsError ''Video generation did not return a valid download link.''), w)
      else
        (case getApiKey h w of
           (Inl e, w1) \<Rightarrow> (Inl e, w1)
         | (Inr key, w1) \<Rightarrow>
             (let w2 = w1\<lparr>trace := trace w1 @ [Fetch (the (downloadLink operation) @ ''&key='' @ key)]\<rparr>
              in case fetch h of
                   Inl e \<Rightarrow> (Inl e, w2)
                 | Inr videoResponse \<Rightarrow>
                     if \<not> ok videoResponse
                     then (Inl (JsError (''Failed to fetch video: '' @ statusText videoResponse)), w2)
                     else (case blob videoResponse of
                             Inl e \<Rightarrow> (Inl e, w2)
                           | Inr videoBlob \<Rightarrow> (Inr (createObjectURL h videoBlob), w2)))))"

definition animateLogo ::
  "host \<Rightarrow> string option \<Rightarrow> string \<Rightarrow> AspectRatio \<Rightarrow> world \<Rightarrow> ((js_error + string) \<times> world) option" where
  "animateLogo h image_data mime_type aspect_ratio w =
     (case getApiKey h w of
        (Inl e, w1) \<Rightarrow> Some (Inl e, w1)
      | (Inr key, w1) \<Rightarrow>
          (let w2 = w1\<lparr>trace := trace w1 @ [GenerateVideos key (generateVideosParams image_data mime_type aspect_ratio)]\<rparr>
           in case generateVideos h of
                Inl e \<Rightarrow> Some (Inl e, w2)
              | Inr operation \<Rightarrow>
                  (case poll h key operation w2 of
                     None \<Rightarrow> None
                   | Some (Inl e, w3) \<Rightarrow> Some (Inl e, w3)
                   | Some (Inr operation', w3) \<Rightarrow> Some (download h operation' w3))))"

section \<open>\<^verbatim>\<open>App.tsx\<close>\<close>

record app_state =
  prompt :: string
  imageData :: "ImageData option"
  videoUrl :: "string option"
  aspectRatio :: AspectRatio
  isGeneratingImage :: bool
  isGeneratingVideo :: bool
  error :: "string option"
  apiKeySelected :: bool
  videoLoadingMessage :: string

text \<open>
  A handler is an async function: its promise is fulfilled or rejected. A handler run is
  modelled on its own, from the state of the render it was created in. The state
  variables a handler reads are the constants of that render, so after an
  \<^verbatim>\<open>await\<close> it still reads the values it started with, while the setters it calls
  change the current state. Below, \<open>c\<close> is the state the handler captured and \<open>s\<close>
  the current one.
\<close>

datatype completion = Returned | Rejected js_error

definition checkApiKey :: "host \<Rightarrow> app_state \<Rightarrow> world \<Rightarrow> completion \<times> app_state \<times> world" where
  "checkApiKey h s w =
     (case window_aistudio h of
        None \<Rightarrow> (Returned, s, w)
      | Some a \<Rightarrow>
          (case hasSelectedApiKey a of
             None \<Rightarrow> (Returned, s, w)
           | Some r \<Rightarrow>
               (let w' = w\<lparr>trace := trace w @ [HasSelectedApiKey]\<rparr>
                in case r of
                     Inl e \<Rightarrow> (Rejected e, s, w')
                   | Inr hasKey \<Rightarrow> (Returned, s\<lparr>apiKeySelected := hasKey\<rparr>, w'))))"

definition handleSelectApiKey :: "host \<Rightarrow> app_state \<Rightarrow> world \<Rightarrow> completion \<times> app_state \<times> world" where
  "handleSelectApiKey h s w =
     (case window_aistudio h of
        None \<Rightarrow> (Returned, s, w)
      | Some a \<Rightarrow>
          (case openSelectKey a of
             None \<Rightarrow> (Returned, s, w)
           | Some r \<Rightarrow>
               (let w' = w\<lparr>trace := trace w @ [OpenSelectKey]\<rparr>
                in case r of
                     Inl e \<Rightarrow> (Rejected e, s, w')
                   | Inr u \<Rightarrow> (Returned, s\<lparr>apiKeySelected := True\<rparr>, w'))))"

subsection \<open>\<open>handleGenerateLogo\<close>, lines 39 to 57\<close>

text \<open>Lines 44 to 47: the state in which \<open>generateLogo\<close> is awaited.\<close>

definition handleGenerateLogo_request :: "app_state \<Rightarrow> app_state" where
  "handleGenerateLogo_request s =
     s\<lparr>error := None, isGeneratingImage := True, videoUrl := None, imageData := None\<rparr>"

text \<open>Lines 51 to 56: what the handler does once \<open>generateLogo\<close> has settled.\<close>

definition handleGenerateLogo_settle :: "js_error + string option \<Rightarrow> app_state \<Rightarrow> app_state" where
  "handleGenerateLogo_settle r s =
     (case r of
        Inr base64Image \<Rightarrow> s\<lparr>imageData := Some \<lparr>base64 = base64Image, mimeType = ''image/png''\<rparr>\<rparr>
      | Inl e \<Rightarrow> s\<lparr>error := Some (''Image generation failed: '' @ template (message e))\<rparr>)
     \<lparr>isGeneratingImage := False\<rparr>"

definition handleGenerateLogo :: "host \<Rightarrow> app_state \<Rightarrow> world \<Rightarrow> app_state \<times> world" where
  "handleGenerateLogo h c w =
     (if trim (prompt c) = []
      then (c\<lparr>error := Some ''Please enter a description for your logo.''\<rparr>, w)
      else (case generateLogo h (prompt c) w of
              (r, w') \<Rightarrow> (handleGenerateLogo_settle r (handleGenerateLogo_request c), w')))"

subsection \<open>\<open>handleFileChange\<close>, lines 107 to 124\<close>

text \<open>
  The argument \<open>file\<close> is \<^verbatim>\<open>e.target.files?.[0]\<close>. \<open>fileToBase64\<close> comes from
  \<^verbatim>\<open>utils\<close>; its outcome for a file is the host's.
\<close>

definition handleFileChange_request :: "app_state \<Rightarrow> app_state" where
  "handleFileChange_request s = s\<lparr>error := None, videoUrl := None\<rparr>"

definition handleFileChange_settle :: "File \<Rightarrow> js_error + string \<Rightarrow> app_state \<Rightarrow> app_state" where
  "handleFileChange_settle f r s =
     (case r of
        Inr b \<Rightarrow> s\<lparr>imageData := Some \<lparr>base64 = Some b, mimeType = file_type f\<rparr>\<rparr>
      | Inl e \<Rightarrow> s\<lparr>error := Some (''Failed to read file: '' @ template (message e)), imageData := None\<rparr>)"

definition handleFileChange :: "host \<Rightarrow> File option \<Rightarrow> app_state \<Rightarrow> world \<Rightarrow> app_state \<times> world" where
  "handleFileChange h file c w =
     (case file of
        None \<Rightarrow> (c, w)
      | Some f \<Rightarrow>
          if \<not> prefix ''image/'' (file_type f)
          then (c\<lparr>error := Some ''Please upload a valid image file.''\<rparr>, w)
          else (handleFileChange_settle f (fileToBase64 h f) (handleFileChange_request c), w))"

subsection \<open>\<open>handleAnimateLogo\<close>, lines 59 to 105\<close>

text \<open>
  Lines 66 to 69. \<open>checkApiKey\<close> stores the host's answer in the current state, but the
  test of line 67 reads \<open>apiKeySelected\<close> of the captured state \<open>c\<close>.
\<close>

definition handleAnimateLogo_credentials :: "host \<Rightarrow> app_state \<Rightarrow> world \<Rightarrow> completion \<times> app_state \<times> world" where
  "handleAnimateLogo_credentials h c w =
     (case checkApiKey h c w of
        (Rejected e, s1, w1) \<Rightarrow> (Rejected e, s1, w1)
      | (Returned, s1, w1) \<Rightarrow>
          if \<not> apiKeySelected c then handleSelectApiKey h s1 w1 else (Returned, s1, w1))"

definition messages :: "string list" where
  "messages =
     [''Warming up the animation engine...'',
      ''Choreographing pixel movements...'',
      ''Rendering cinematic magic...'',
      ''This can take a few minutes, please wait...'',
      ''Almost there, adding the final touches...'']"

text \<open>Lines 71 to 87, up to the call of \<open>animateLogo\<close>; the timer's identifier is
  \<open>next_interval_id w\<close>.\<close>

definition handleAnimateLogo_start :: "app_state \<Rightarrow> world \<Rightarrow> app_state \<times> world" where
  "handleAnimateLogo_start s w =
     (s\<lparr>error := None, isGeneratingVideo := True, videoUrl := None,
        videoLoadingMessage := messages ! 0\<rparr>,
      w\<lparr>next_interval_id := next_interval_id w + 1,
        intervals := (intervals w)(next_interval_id w \<mapsto> \<lparr>delay = 4000, messageIndex = 0\<rparr>)\<rparr>)"

text \<open>One firing of the timer \<open>intervalId\<close>: the callback of lines 85 and 86 runs if the
  timer is still running, and nothing happens if it has been cleared.\<close>

definition fire_interval :: "nat \<Rightarrow> app_state \<times> world \<Rightarrow> app_state \<times> world" where
  "fire_interval intervalId sw =
     (case sw of (s, w) \<Rightarrow>
        (case intervals w intervalId of
           None \<Rightarrow> (s, w)
         | Some i \<Rightarrow>
             (let messageIndex' = (messageIndex i + 1) mod length messages
              in (s\<lparr>videoLoadingMessage := messages ! messageIndex'\<rparr>,
                  w\<lparr>intervals := (intervals w)(intervalId \<mapsto> i\<lparr>messageIndex := messageIndex'\<rparr>)\<rparr>))))"

definition clearInterval :: "nat \<Rightarrow> world \<Rightarrow> world" where
  "clearInterval intervalId w = w\<lparr>intervals := (intervals w)(intervalId := None)\<rparr>"

text \<open>Lines 92 to 104: what the handler does once \<open>animateLogo\<close> has settled.\<close>

definition handleAnimateLogo_settle ::
  "nat \<Rightarrow> js_error + string \<Rightarrow> app_state \<times> world \<Rightarrow> app_state \<times> world" where
  "handleAnimateLogo_settle intervalId r sw =
     (case sw of (s, w) \<Rightarrow>
        ((case r of
            Inr url \<Rightarrow> s\<lparr>videoUrl := Some url\<rparr>
          | Inl e \<Rightarrow>
              if (case message e of
                    None \<Rightarrow> False
                  | Some m \<Rightarrow> str_includes m ''Requested entity was not found'')
              then s\<lparr>error := Some ''API Key error. Please re-select your API Key and try again.'',
                     apiKeySelected := False\<rparr>
              else s\<lparr>error := Some (''Video animation failed: '' @ template (message e))\<rparr>)
         \<lparr>isGeneratingVideo := False, videoLoadingMessage := []\<rparr>,
         clearInterval intervalId w))"

text \<open>
  The whole handler. \<open>ticks\<close> is the number of times the timer fires while
  \<open>animateLogo\<close> is awaited; it depends on how long the remote calls take, so it is a
  parameter. The callback of the timer writes the message and its own index, the gateway
  writes the trace and its counters: the order in which they run makes no difference, and
  the firings are applied after the call. The result is \<open>None\<close> when \<open>animateLogo\<close>
  never settles.
\<close>

definition handleAnimateLogo ::
  "host \<Rightarrow> nat \<Rightarrow> app_state \<Rightarrow> world \<Rightarrow> (completion \<times> app_state \<times> world) option" where
  "handleAnimateLogo h ticks c w =
     (case imageData c of
        None \<Rightarrow> Some (Returned, c\<lparr>error := Some ''Please generate or upload a logo first.''\<rparr>, w)
      | Some img \<Rightarrow>
          (case handleAnimateLogo_credentials h c w of
             (Rejected e, s1, w1) \<Rightarrow> Some (Rejected e, s1, w1)
           | (Returned, s1, w1) \<Rightarrow>
               (case handleAnimateLogo_start s1 w1 of
                  (s2, w2) \<Rightarrow>
                    (case animateLogo h (base64 img) (mimeType img) (aspectRatio c) w2 of
                       None \<Rightarrow> None
                     | Some (r, w3) \<Rightarrow>
                         Some (Returned,
                               handleAnimateLogo_settle (next_interval_id w1) r
                                 ((fire_interval (next_interval_id w1) ^^ ticks) (s2, w3)))))))"

text \<open>
  Unmounting the component runs the cleanup functions its effects returned. The only
  effect, lines 27 to 29, calls \<open>checkApiKey\<close> and returns nothing, so unmounting runs no
  code of the component: timers that are running keep running.
\<close>

definition unmount :: "app_state \<times> world \<Rightarrow> app_state \<times> world" where
  "unmount sw = sw"

subsection \<open>Two handler runs that overlap\<close>

text \<open>
  The controls are disabled while \<open>isGeneratingImage\<close> or \<open>isGeneratingVideo\<close> is set
  (lines 157, 161, 184, 195 and 215). \<open>handleFileChange\<close> sets neither, so while it awaits
  the file read the Animate button is enabled as long as there is an Image Artifact. The run
  below is the one in which the button is pressed then:
  \<^enum> a file is chosen, and \<open>handleFileChange\<close> runs up to its \<^verbatim>\<open>await\<close> (lines 108 to
    117); with a file that is not an image it has returned, and the rest is an ordinary run
    of \<open>handleAnimateLogo\<close>;
  \<^enum> the component renders, the button is pressed, and \<open>handleAnimateLogo\<close>, created in
    that render, runs up to its \<^verbatim>\<open>await\<close> of \<open>animateLogo\<close> (lines 60 to 91), or to its
    end if it stops before;
  \<^enum> the file read ends and \<open>handleFileChange\<close> runs to its end (line 118, or lines 120
    and 121);
  \<^enum> \<open>animateLogo\<close> settles and \<open>handleAnimateLogo\<close> runs to its end (lines 92 to 104).

  Each step is the piece of the handler defined above; no firing of the timer is put in.
  The result is the completion of \<open>handleAnimateLogo\<close> with the last state and world.
\<close>

definition animate_during_upload ::
  "host \<Rightarrow> File \<Rightarrow> app_state \<Rightarrow> world \<Rightarrow> (completion \<times> app_state \<times> world) option" where
  "animate_during_upload h f s w =
     (if \<not> prefix ''image/'' (file_type f)
      then handleAnimateLogo h 0 (s\<lparr>error := Some ''Please upload a valid image file.''\<rparr>) w
      else
        (let c = handleFileChange_request s
         in case imageData c of
              None \<Rightarrow>
                Some (Returned,
                      handleFileChange_settle f (fileToBase64 h f)
                        (c\<lparr>error := Some ''Please generate or upload a logo first.''\<rparr>),
                      w)
            | Some img \<Rightarrow>
                (case handleAnimateLogo_credentials h c w of
                   (Rejected e, s1, w1) \<Rightarrow>
                     Some (Rejected e, handleFileChange_settle f (fileToBase64 h f) s1, w1)
                 | (Returned, s1, w1) \<Rightarrow>
                     (case handleAnimateLogo_start s1 w1 of
                        (s2, w2) \<Rightarrow>
                          (case animateLogo h (base64 img) (mimeType img) (aspectRatio c) w2 of
                             None \<Rightarrow> None
                           | Some (r, w3) \<Rightarrow>
                               Some (Returned,
                                     handleAnimateLogo_settle (next_interval_id w1) r
                                       (handleFileChange_settle f (fileToBase64 h f) s2, w3)))))))"

section \<open>Observations on traces\<close>

definition submit_calls :: "event list \<Rightarrow> nat" where
  "submit_calls evs = length (filter (\<lambda>e. case e of GenerateVideos k p \<Rightarrow> True | _ \<Rightarrow> False) evs)"

definition status_queries :: "event list \<Rightarrow> nat" where
  "status_queries evs =
     length (filter (\<lambda>e. case e of GetVideosOperation k operation \<Rightarrow> True | _ \<Rightarrow> False) evs)"

text \<open>The image bytes of the submits of a trace: what each video was asked for.\<close>

definition submitted_images :: "event list \<Rightarrow> string option list" where
  "submitted_images evs =
     concat (map (\<lambda>e. case e of GenerateVideos k p \<Rightarrow> [gvp_imageBytes p] | _ \<Rightarrow> []) evs)"

definition fetches :: "event list \<Rightarrow> string list" where
  "fetches evs = concat (map (\<lambda>e. case e of Fetch url \<Rightarrow> [url] | _ \<Rightarrow> []) evs)"

text \<open>The events of the poll rounds made with the handles \<open>pending\<close>, in order: each round
  is the wait followed by the query that passes the handle held at that moment.\<close>

definition poll_events :: "string \<Rightarrow> Operation list \<Rightarrow> event list" where
  "poll_events key pending =
     concat (map (\<lambda>operation. [SetTimeout 5000, GetVideosOperation key operation]) pending)"

section \<open>Concrete scenarios\<close>

definition world0 :: world where
  "world0 = \<lparr>env_reads = 0, status_calls = 0, trace = [], next_interval_id = 1, intervals = Map.empty\<rparr>"

text \<open>The initial state of the component, lines 9 to 18.\<close>

definition initial_state :: app_state where
  "initial_state =
     \<lparr> prompt = ''A stylized phoenix rising from ashes, for a tech startup.'',
       imageData = None,
       videoUrl = None,
       aspectRatio = Ratio_16_9,
       isGeneratingImage = False,
       isGeneratingVideo = False,
       error = None,
       apiKeySelected = False,
       videoLoadingMessage = [] \<rparr>"

definition logo :: ImageData where
  "logo = \<lparr>base64 = Some ''iVBOR'', mimeType = ''image/png''\<rparr>"

definition state_logo :: app_state where
  "state_logo = initial_state\<lparr>imageData := Some logo\<rparr>"

definition state_video :: app_state where
  "state_video = state_logo\<lparr>videoUrl := Some ''blob:old'', apiKeySelected := True\<rparr>"

definition png_file :: File where
  "png_file = \<lparr>file_type = ''image/png'', file_content = ''AAAA''\<rparr>"

definition text_file :: File where
  "text_file = \<lparr>file_type = ''text/plain'', file_content = ''AAAA''\<rparr>"

definition op_submitted :: Operation where
  "op_submitted = \<lparr>op_done = None, op_response = None\<rparr>"

definition op_running :: Operation where
  "op_running = \<lparr>op_done = Some False, op_response = None\<rparr>"

definition op_final :: Operation where
  "op_final =
     \<lparr>op_done = Some True,
      op_response = Some \<lparr>generatedVideos = Some [\<lparr>gv_video = Some \<lparr>uri = Some ''https://v/1?alt=media''\<rparr>\<rparr>]\<rparr>\<rparr>"

text \<open>The end-to-end scenario of the specification: the submit and the first status query
  answer with an unfinished job, the second query with the finished one.\<close>

definition host_ok :: host where
  "host_ok =
     \<lparr> API_KEY = (\<lambda>k. Some ''KEY''),
       generateImages = Inr \<lparr>generatedImages = Some [\<lparr>gi_image = Some \<lparr>imageBytes = Some ''iVBOR''\<rparr>\<rparr>]\<rparr>,
       generateVideos = Inr op_submitted,
       getVideosOperation = (\<lambda>k. if k = 0 then Inr op_running else Inr op_final),
       fetch = Inr \<lparr>ok = True, statusText = ''OK'', blob = Inr ''mp4''\<rparr>,
       createObjectURL = (\<lambda>b. ''blob:'' @ b),
       fileToBase64 = (\<lambda>f. Inr (file_content f)),
       window_aistudio = Some \<lparr>hasSelectedApiKey = Some (Inr True), openSelectKey = Some (Inr ())\<rparr> \<rparr>"

definition host_done :: host where
  "host_done = host_ok\<lparr>generateVideos := Inr op_final\<rparr>"

definition host_not_found :: host where
  "host_not_found = host_ok\<lparr>generateVideos := Inl (JsError ''ApiError: Requested entity was not found.'')\<rparr>"

definition host_no_bytes :: host where
  "host_no_bytes =
     host_ok\<lparr>generateImages := Inr \<lparr>generatedImages = Some [\<lparr>gi_image = Some \<lparr>imageBytes = None\<rparr>\<rparr>]\<rparr>\<rparr>"

definition host_key_lost :: host where
  "host_key_lost =
     host_ok\<lparr>API_KEY := (\<lambda>k. if k = 0 then Some ''KEY'' else None), generateVideos := Inr op_final\<rparr>"

definition host_key_changed :: host where
  "host_key_changed =
     host_ok\<lparr>API_KEY := (\<lambda>k. if k = 0 then Some ''OLD'' else Some ''NEW''), generateVideos := Inr op_final\<rparr>"

definition host_no_aistudio :: host where
  "host_no_aistudio = host_ok\<lparr>window_aistudio := None\<rparr>"

definition host_unverified :: host where
  "host_unverified =
     host_ok\<lparr>window_aistudio := Some \<lparr>hasSelectedApiKey = Some (Inr False), openSelectKey = Some (Inr ())\<rparr>\<rparr>"

definition host_read_fails :: host where
  "host_read_fails = host_ok\<lparr>fileToBase64 := (\<lambda>f. Inl (JsError ''read error''))\<rparr>"

definition host_no_key :: host where
  "host_no_key = host_ok\<lparr>API_KEY := (\<lambda>k. None)\<rparr>"

definition host_forbidden :: host where
  "host_forbidden = host_ok\<lparr>fetch := Inr \<lparr>ok = False, statusText = ''Forbidden'', blob = Inr []\<rparr>\<rparr>"

section \<open>Auxiliary facts\<close>

lemma poll_round_simps:
  "status_calls (poll_round key operation w) = status_calls w + 1"
  "trace (poll_round key operation w) = trace w @ [SetTimeout 5000, GetVideosOperation key operation]"
  "env_reads (poll_round key operation w) = env_reads w"
  "next_interval_id (poll_round key operation w) = next_interval_id w"
  "intervals (poll_round key operation w) = intervals w"
  by (simp_all add: poll_round_def)

text \<open>The loop returns when the handles it sees are unfinished \<open>pending\<close> and then the
  finished \<open>final\<close>; it makes one round for each unfinished handle.\<close>

lemma poll_pending:
  assumes "\<forall>operation \<in> set pending. \<not> truthy_bool (op_done operation)"
    and "truthy_bool (op_done final)"
    and "\<forall>i < length pending.
           getVideosOperation h (status_calls w + i) = Inr ((pending @ [final]) ! Suc i)"
  shows "poll h key (hd (pending @ [final])) w =
           Some (Inr final,
                 w\<lparr>status_calls := status_calls w + length pending,
                   trace := trace w @ poll_events key pending\<rparr>)"
  using assms
proof (induction pending arbitrary: w)
  case Nil
  then show ?case by (subst poll.simps) (simp add: poll_events_def)
next
  case (Cons p ps)
  have nd: "\<not> truthy_bool (op_done p)" using Cons.prems(1) by simp
  have first: "getVideosOperation h (status_calls w) = Inr (hd (ps @ [final]))"
    using Cons.prems(3)[rule_format, of 0] by (cases ps) simp_all
  have rest: "\<forall>i < length ps.
      getVideosOperation h (status_calls (poll_round key p w) + i) = Inr ((ps @ [final]) ! Suc i)"
  proof (intro allI impI)
    fix i assume "i < length ps"
    then show "getVideosOperation h (status_calls (poll_round key p w) + i) = Inr ((ps @ [final]) ! Suc i)"
      using Cons.prems(3)[rule_format, of "Suc i"] by (simp add: poll_round_simps)
  qed
  have ih: "poll h key (hd (ps @ [final])) (poll_round key p w) =
      Some (Inr final,
            (poll_round key p w)\<lparr>status_calls := status_calls (poll_round key p w) + length ps,
               trace := trace (poll_round key p w) @ poll_events key ps\<rparr>)"
    using Cons.IH[OF _ Cons.prems(2) rest] Cons.prems(1) by simp
  show ?case
    by (subst poll.simps) (simp add: nd first ih, simp add: poll_round_def poll_events_def)
qed

text \<open>Whenever the loop returns, it has only added poll rounds to the trace.\<close>

lemma poll_frame_aux:
  "poll h key operation w = Some y \<Longrightarrow>
     env_reads (snd y) = env_reads w \<and> next_interval_id (snd y) = next_interval_id w
     \<and> intervals (snd y) = intervals w
     \<and> (\<exists>ops. trace (snd y) = trace w @ poll_events key ops
               \<and> status_calls (snd y) = status_calls w + length ops)"
proof (induct rule: poll.raw_induct[rotated 1, consumes 1])
  case (1 poll' h key operation w y)
  show ?case
  proof (cases "truthy_bool (op_done operation)")
    case True
    with 1(2) have "snd y = w" by auto
    then show ?thesis by (auto simp: poll_events_def intro: exI[of _ "[]"])
  next
    case nd: False
    show ?thesis
    proof (cases "getVideosOperation h (status_calls w)")
      case (Inl e)
      with nd 1(2) have "snd y = poll_round key operation w" by auto
      then show ?thesis
        by (auto simp: poll_round_simps poll_events_def intro: exI[of _ "[operation]"])
    next
      case (Inr operation')
      with nd 1(2) have step: "poll' h key operation' (poll_round key operation w) = Some y" by simp
      from 1(1)[OF step] obtain ops where
        f: "env_reads (snd y) = env_reads w" "next_interval_id (snd y) = next_interval_id w"
           "intervals (snd y) = intervals w"
        and t: "trace (snd y) = trace (poll_round key operation w) @ poll_events key ops"
        and c: "status_calls (snd y) = status_calls (poll_round key operation w) + length ops"
        by (auto simp: poll_round_simps)
      have "trace (snd y) = trace w @ poll_events key (operation # ops)"
        using t by (simp add: poll_round_simps poll_events_def)
      moreover have "status_calls (snd y) = status_calls w + length (operation # ops)"
        using c by (simp add: poll_round_simps)
      ultimately show ?thesis using f by blast
    qed
  qed
qed

lemma poll_frame:
  assumes "poll h key operation w = Some (r, w')"
  shows "env_reads w' = env_reads w" "next_interval_id w' = next_interval_id w"
    "intervals w' = intervals w"
    "\<exists>ops. trace w' = trace w @ poll_events key ops \<and> status_calls w' = status_calls w + length ops"
  using poll_frame_aux[OF assms] by simp_all

lemma download_trace:
  "\<exists>rest. trace (snd (download h operation w)) = trace w @ rest
     \<and> (rest = [] \<or> (\<exists>url. rest = [Fetch url]))"
  by (auto simp: download_def getApiKey_def Let_def split: sum.splits prod.splits)

lemma count_poll_events:
  "submit_calls (poll_events key pending) = 0"
  "status_queries (poll_events key pending) = length pending"
  by (induction pending) (simp_all add: submit_calls_def status_queries_def poll_events_def)

lemma count_append:
  "submit_calls (xs @ ys) = submit_calls xs + submit_calls ys"
  "status_queries (xs @ ys) = status_queries xs + status_queries ys"
  by (simp_all add: submit_calls_def status_queries_def)

section \<open>The claims\<close>

subsection \<open>C1: submit, then one poll round for each unfinished handle\<close>

text \<open>
  C1, as stated, fails. With the job already finished in the answer to the submit, the
  completion flag is seen false zero times and then true, and \<open>animateLogo\<close> makes no
  status query at all, not one.
\<close>

theorem animateLogo_done_at_submit_counterexample:
  "generateVideos host_done = Inr op_final \<and> truthy_bool (op_done op_final)
   \<and> map_option (\<lambda>(r, w'). (r, status_queries (trace w')))
        (animateLogo host_done (Some ''iVBOR'') ''image/png'' Ratio_16_9 world0) = Some (Inr ''blob:mp4'', 0)
   \<and> map_option (\<lambda>(r, w'). status_queries (trace w'))
        (animateLogo host_done (Some ''iVBOR'') ''image/png'' Ratio_16_9 world0)
       \<noteq> Some (length ([] :: Operation list) + 1)"
  by (simp add: animateLogo_def getApiKey_def host_done_def host_ok_def world0_def op_final_def
      poll.simps download_def downloadLink_def status_queries_def)

text \<open>
  C1, amended. The handles \<open>animateLogo\<close> sees are the one the submit returns and then
  the one each status query returns. When the first \<open>N\<close> of them (the list \<open>pending\<close>)
  are unfinished and the next one (\<open>final\<close>) is finished, the call returns, and what it
  has added to the trace is: the submit, first and once; then, for each unfinished handle in
  turn, a wait of 5000 ms followed by one status query that passes that handle, so a query
  is only sent with the answer of the one before it; then at most the download. That is one
  submit and \<open>N\<close> status queries, one for each time the flag was seen false. (Counting
  only the answers to status queries: when the submit returns an unfinished job and the
  queries are answered unfinished \<open>M\<close> times and then finished, the flag is seen false
  \<open>M + 1\<close> times and there are \<open>M + 1\<close> queries.)
\<close>

theorem animateLogo_poll_trace:
  assumes key: "API_KEY h (env_reads w) = Some key" "key \<noteq> []"
    and submit: "generateVideos h = Inr (hd (pending @ [final]))"
    and pending: "\<forall>operation \<in> set pending. \<not> truthy_bool (op_done operation)"
    and final: "truthy_bool (op_done final)"
    and status: "\<forall>i < length pending.
                   getVideosOperation h (status_calls w + i) = Inr ((pending @ [final]) ! Suc i)"
  shows "\<exists>r w' rest. animateLogo h image_data mime_type aspect_ratio w = Some (r, w')
           \<and> trace w' = trace w @ GenerateVideos key (generateVideosParams image_data mime_type aspect_ratio)
                                  # poll_events key pending @ rest
           \<and> (rest = [] \<or> (\<exists>url. rest = [Fetch url]))
           \<and> submit_calls (drop (length (trace w)) (trace w')) = 1
           \<and> status_queries (drop (length (trace w)) (trace w')) = length pending"
proof -
  define w2 where "w2 = w\<lparr>env_reads := env_reads w + 1,
     trace := trace w @ [GenerateVideos key (generateVideosParams image_data mime_type aspect_ratio)]\<rparr>"
  define w3 where "w3 = w2\<lparr>status_calls := status_calls w2 + length pending,
                   trace := trace w2 @ poll_events key pending\<rparr>"
  have st: "\<forall>i < length pending. getVideosOperation h (status_calls w2 + i) = Inr ((pending @ [final]) ! Suc i)"
    using status by (simp add: w2_def)
  have p: "poll h key (hd (pending @ [final])) w2 = Some (Inr final, w3)"
    unfolding w3_def by (rule poll_pending[OF pending final st])
  have a: "animateLogo h image_data mime_type aspect_ratio w = Some (download h final w3)"
    using key submit p by (simp add: animateLogo_def getApiKey_def Let_def w2_def)
  obtain rest where rest: "trace (snd (download h final w3)) = trace w3 @ rest"
      "rest = [] \<or> (\<exists>url. rest = [Fetch url])"
    using download_trace[of h final w3] by blast
  have t3: "trace w3 = trace w @ GenerateVideos key (generateVideosParams image_data mime_type aspect_ratio)
                                  # poll_events key pending"
    by (simp add: w3_def w2_def)
  have cr: "submit_calls rest = 0" "status_queries rest = 0"
    using rest(2) by (auto simp: submit_calls_def status_queries_def)
  have c1: "submit_calls (GenerateVideos key (generateVideosParams image_data mime_type aspect_ratio)
                            # poll_events key pending @ rest) = 1"
    using count_poll_events(1)[of key pending] cr(1) count_append(1)[of "poll_events key pending" rest]
    by (simp add: submit_calls_def)
  have c2: "status_queries (GenerateVideos key (generateVideosParams image_data mime_type aspect_ratio)
                              # poll_events key pending @ rest) = length pending"
    using count_poll_events(2)[of key pending] cr(2) count_append(2)[of "poll_events key pending" rest]
    by (simp add: status_queries_def)
  show ?thesis
    apply (rule exI[of _ "fst (download h final w3)"])
    apply (rule exI[of _ "snd (download h final w3)"])
    apply (rule exI[of _ rest])
    using a rest t3 c1 c2 by simp
qed

theorem animateLogo_poll_trace_witness:
  "API_KEY host_ok (env_reads world0) = Some ''KEY''
   \<and> generateVideos host_ok = Inr op_submitted \<and> \<not> truthy_bool (op_done op_submitted)
   \<and> getVideosOperation host_ok 0 = Inr op_running \<and> \<not> truthy_bool (op_done op_running)
   \<and> getVideosOperation host_ok 1 = Inr op_final \<and> truthy_bool (op_done op_final)
   \<and> (\<exists>r w' rest. animateLogo host_ok (Some ''iVBOR'') ''image/png'' Ratio_16_9 world0 = Some (r, w')
        \<and> trace w' = trace world0 @ GenerateVideos ''KEY'' (generateVideosParams (Some ''iVBOR'') ''image/png'' Ratio_16_9)
                                  # poll_events ''KEY'' [op_submitted, op_running] @ rest
        \<and> (rest = [] \<or> (\<exists>url. rest = [Fetch url]))
        \<and> submit_calls (drop (length (trace world0)) (trace w')) = 1
        \<and> status_queries (drop (length (trace world0)) (trace w')) = length [op_submitted, op_running])"
proof -
  have h1: "API_KEY host_ok (env_reads world0) = Some ''KEY''" by (simp add: host_ok_def)
  have h2: "''KEY'' \<noteq> []" by simp
  have h3: "generateVideos host_ok = Inr (hd ([op_submitted, op_running] @ [op_final]))"
    by (simp add: host_ok_def)
  have h4: "\<forall>operation \<in> set [op_submitted, op_running]. \<not> truthy_bool (op_done operation)"
    by (simp add: op_submitted_def op_running_def)
  have h5: "truthy_bool (op_done op_final)" by (simp add: op_final_def)
  have h6: "\<forall>i < length [op_submitted, op_running].
         getVideosOperation host_ok (status_calls world0 + i)
           = Inr (([op_submitted, op_running] @ [op_final]) ! Suc i)"
    by (simp add: host_ok_def world0_def less_Suc_eq numeral_2_eq_2)
  have h7: "getVideosOperation host_ok 0 = Inr op_running" "getVideosOperation host_ok 1 = Inr op_final"
    by (simp_all add: host_ok_def)
  from animateLogo_poll_trace[OF h1 h2 h3 h4 h5 h6, of "Some ''iVBOR''" "''image/png''" Ratio_16_9]
  show ?thesis using h1 h3 h4 h5 h7 by simp
qed

subsection \<open>C2: what the orchestrator does with a failure of \<open>animateLogo\<close>\<close>

lemma str_includes_sublist: "str_includes s sub = sublist sub s"
proof (induction s)
  case Nil
  then show ?case by auto
next
  case (Cons c cs)
  then show ?case by (cases sub) (auto simp: sublist_Cons_right)
qed

lemma str_includes_iff: "str_includes s sub \<longleftrightarrow> (\<exists>p q. s = p @ sub @ q)"
  by (simp add: str_includes_sublist sublist_def)

lemma dropWhile_all_iff: "(\<forall>x \<in> set (dropWhile P xs). P x) \<longleftrightarrow> (\<forall>x \<in> set xs. P x)"
proof
  assume a: "\<forall>x \<in> set (dropWhile P xs). P x"
  have "dropWhile P xs = []"
  proof (rule ccontr)
    assume ne: "dropWhile P xs \<noteq> []"
    then have "\<not> P (hd (dropWhile P xs))" by (rule hd_dropWhile)
    moreover have "hd (dropWhile P xs) \<in> set (dropWhile P xs)" using ne by simp
    ultimately show False using a by blast
  qed
  then show "\<forall>x \<in> set xs. P x" by (simp add: dropWhile_eq_Nil_conv)
next
  assume "\<forall>x \<in> set xs. P x"
  then show "\<forall>x \<in> set (dropWhile P xs). P x" by (meson set_dropWhileD)
qed

lemma trim_empty_iff: "trim s = [] \<longleftrightarrow> (\<forall>ch \<in> set s. isWhiteSpace ch)"
  by (simp add: trim_def dropWhile_eq_Nil_conv dropWhile_all_iff)

lemma fire_interval_frame:
  "\<exists>m iv. fire_interval i (s, w) = (s\<lparr>videoLoadingMessage := m\<rparr>, w\<lparr>intervals := iv\<rparr>)"
proof (cases "intervals w i")
  case None
  have "fire_interval i (s, w) = (s\<lparr>videoLoadingMessage := videoLoadingMessage s\<rparr>, w\<lparr>intervals := intervals w\<rparr>)"
    using None by (simp add: fire_interval_def)
  then show ?thesis by blast
next
  case (Some a)
  have "fire_interval i (s, w) =
      (s\<lparr>videoLoadingMessage := messages ! ((messageIndex a + 1) mod length messages)\<rparr>,
       w\<lparr>intervals := (intervals w)(i \<mapsto> a\<lparr>messageIndex := (messageIndex a + 1) mod length messages\<rparr>)\<rparr>)"
    using Some by (simp add: fire_interval_def Let_def)
  then show ?thesis by blast
qed

lemma fire_funpow_frame:
  "\<exists>m iv. (fire_interval i ^^ k) (s, w) = (s\<lparr>videoLoadingMessage := m\<rparr>, w\<lparr>intervals := iv\<rparr>)"
proof (induction k)
  case 0
  have "(fire_interval i ^^ 0) (s, w) = (s\<lparr>videoLoadingMessage := videoLoadingMessage s\<rparr>, w\<lparr>intervals := intervals w\<rparr>)"
    by simp
  then show ?case by blast
next
  case (Suc k)
  then obtain m iv where "(fire_interval i ^^ k) (s, w) = (s\<lparr>videoLoadingMessage := m\<rparr>, w\<lparr>intervals := iv\<rparr>)"
    by blast
  moreover obtain m' iv' where "fire_interval i (s\<lparr>videoLoadingMessage := m\<rparr>, w\<lparr>intervals := iv\<rparr>)
      = (s\<lparr>videoLoadingMessage := m\<rparr>\<lparr>videoLoadingMessage := m'\<rparr>, w\<lparr>intervals := iv\<rparr>\<lparr>intervals := iv'\<rparr>)"
    using fire_interval_frame by blast
  ultimately have "(fire_interval i ^^ Suc k) (s, w) = (s\<lparr>videoLoadingMessage := m'\<rparr>, w\<lparr>intervals := iv'\<rparr>)"
    by simp
  then show ?case by blast
qed

lemma settle_failure:
  "fst (handleAnimateLogo_settle i (Inl e) (s, w)) =
     (if (\<exists>m. message e = Some m \<and> str_includes m ''Requested entity was not found'')
      then s\<lparr>error := Some ''API Key error. Please re-select your API Key and try again.'',
             apiKeySelected := False, isGeneratingVideo := False, videoLoadingMessage := []\<rparr>
      else s\<lparr>error := Some (''Video animation failed: '' @ template (message e)),
             isGeneratingVideo := False, videoLoadingMessage := []\<rparr>)"
  by (cases e) (auto simp: handleAnimateLogo_settle_def split: option.splits)

text \<open>
  C2. Let the handler reach the call of \<open>animateLogo\<close> with the state \<open>s1\<close> that the
  credential phase left, and let the call fail with the error \<open>e\<close>. Whatever the number
  of timer firings, the handler returns. If the message of \<open>e\<close> contains \<open>Requested entity
  was not found\<close>, the credential selection state is false afterwards and the error shown
  is the message that asks to select the key again. In every other case, a message without
  that substring or no message at all, the selection state is the one of \<open>s1\<close> and the
  error shown is \<open>Video animation failed:\<close> followed by the message.
\<close>

theorem handleAnimateLogo_failure_message:
  assumes img: "imageData c = Some img"
    and cred: "handleAnimateLogo_credentials h c w = (Returned, s1, w1)"
    and fails: "map_option fst (animateLogo h (base64 img) (mimeType img) (aspectRatio c)
                  (snd (handleAnimateLogo_start s1 w1))) = Some (Inl e)"
  shows "\<exists>s' w'. handleAnimateLogo h ticks c w = Some (Returned, s', w')
     \<and> (if (\<exists>m p q. message e = Some m \<and> m = p @ ''Requested entity was not found'' @ q)
        then apiKeySelected s' = False
             \<and> error s' = Some ''API Key error. Please re-select your API Key and try again.''
        else apiKeySelected s' = apiKeySelected s1
             \<and> error s' = Some (''Video animation failed: '' @ template (message e)))"
proof -
  obtain s2 w2 where start: "handleAnimateLogo_start s1 w1 = (s2, w2)" by (cases "handleAnimateLogo_start s1 w1")
  have s2: "apiKeySelected s2 = apiKeySelected s1"
    using start by (auto simp: handleAnimateLogo_start_def)
  from fails start obtain w3 where
    a: "animateLogo h (base64 img) (mimeType img) (aspectRatio c) w2 = Some (Inl e, w3)"
    by (cases "animateLogo h (base64 img) (mimeType img) (aspectRatio c) w2") auto
  obtain m iv where fired: "(fire_interval (next_interval_id w1) ^^ ticks) (s2, w3)
      = (s2\<lparr>videoLoadingMessage := m\<rparr>, w3\<lparr>intervals := iv\<rparr>)"
    using fire_funpow_frame by blast
  have run: "handleAnimateLogo h ticks c w = Some (Returned,
      handleAnimateLogo_settle (next_interval_id w1) (Inl e) (s2\<lparr>videoLoadingMessage := m\<rparr>, w3\<lparr>intervals := iv\<rparr>))"
    using img cred start a fired by (simp add: handleAnimateLogo_def)
  have cond: "(\<exists>m p q. message e = Some m \<and> m = p @ ''Requested entity was not found'' @ q)
      = (\<exists>m. message e = Some m \<and> str_includes m ''Requested entity was not found'')"
    by (simp only: str_includes_iff) blast
  obtain s' w' where sw: "handleAnimateLogo_settle (next_interval_id w1) (Inl e)
      (s2\<lparr>videoLoadingMessage := m\<rparr>, w3\<lparr>intervals := iv\<rparr>) = (s', w')"
    by (cases "handleAnimateLogo_settle (next_interval_id w1) (Inl e) (s2\<lparr>videoLoadingMessage := m\<rparr>, w3\<lparr>intervals := iv\<rparr>)")
  have s': "s' = (if (\<exists>m. message e = Some m \<and> str_includes m ''Requested entity was not found'')
      then (s2\<lparr>videoLoadingMessage := m\<rparr>)\<lparr>error := Some ''API Key error. Please re-select your API Key and try again.'',
             apiKeySelected := False, isGeneratingVideo := False, videoLoadingMessage := []\<rparr>
      else (s2\<lparr>videoLoadingMessage := m\<rparr>)\<lparr>error := Some (''Video animation failed: '' @ template (message e)),
             isGeneratingVideo := False, videoLoadingMessage := []\<rparr>)"
    using settle_failure[of "next_interval_id w1" e "s2\<lparr>videoLoadingMessage := m\<rparr>" "w3\<lparr>intervals := iv\<rparr>"] sw
    by simp
  show ?thesis
    apply (rule exI[of _ s'])
    apply (rule exI[of _ w'])
    unfolding cond using run sw s' s2 by (simp split: if_splits)
qed

theorem handleAnimateLogo_failure_message_witness:
  "imageData state_logo = Some logo
   \<and> handleAnimateLogo_credentials host_not_found state_logo world0
       = (Returned, state_logo\<lparr>apiKeySelected := True\<rparr>, world0\<lparr>trace := [HasSelectedApiKey, OpenSelectKey]\<rparr>)
   \<and> map_option fst (animateLogo host_not_found (base64 logo) (mimeType logo) (aspectRatio state_logo)
        (snd (handleAnimateLogo_start (state_logo\<lparr>apiKeySelected := True\<rparr>)
                (world0\<lparr>trace := [HasSelectedApiKey, OpenSelectKey]\<rparr>))))
       = Some (Inl (JsError ''ApiError: Requested entity was not found.''))
   \<and> (\<exists>s' w'. handleAnimateLogo host_not_found 3 state_logo world0 = Some (Returned, s', w')
        \<and> apiKeySelected s' = False
        \<and> error s' = Some ''API Key error. Please re-select your API Key and try again.'')"
proof -
  have h1: "imageData state_logo = Some logo" by (simp add: state_logo_def initial_state_def)
  have h2: "handleAnimateLogo_credentials host_not_found state_logo world0
       = (Returned, state_logo\<lparr>apiKeySelected := True\<rparr>, world0\<lparr>trace := [HasSelectedApiKey, OpenSelectKey]\<rparr>)"
    by (simp add: handleAnimateLogo_credentials_def checkApiKey_def handleSelectApiKey_def
        host_not_found_def host_ok_def state_logo_def initial_state_def world0_def)
  have h3: "map_option fst (animateLogo host_not_found (base64 logo) (mimeType logo) (aspectRatio state_logo)
        (snd (handleAnimateLogo_start (state_logo\<lparr>apiKeySelected := True\<rparr>)
                (world0\<lparr>trace := [HasSelectedApiKey, OpenSelectKey]\<rparr>))))
       = Some (Inl (JsError ''ApiError: Requested entity was not found.''))"
    by (simp add: animateLogo_def getApiKey_def handleAnimateLogo_start_def host_not_found_def host_ok_def world0_def)
  have c: "\<exists>m p q. message (JsError ''ApiError: Requested entity was not found.'') = Some m
             \<and> m = p @ ''Requested entity was not found'' @ q"
    by (rule exI[of _ "''ApiError: Requested entity was not found.''"], rule exI[of _ "''ApiError: ''"],
        rule exI[of _ "''.''"]) simp
  from handleAnimateLogo_failure_message[OF h1 h2 h3, of 3] c
  show ?thesis using h1 h2 h3 by simp
qed

subsection \<open>C3: the outcomes of \<open>generateLogo\<close>\<close>

lemma generateLogo_outcomes:
  assumes "API_KEY h (env_reads w) = Some key" "key \<noteq> []"
  shows "trace (snd (generateLogo h p w)) = trace w @ [GenerateImages key (generateImagesParams p)]"
    and "generateImages h = Inl e \<Longrightarrow> fst (generateLogo h p w) = Inl e"
    and "generateImages h = Inr response \<Longrightarrow> generatedImages response = None \<or> generatedImages response = Some [] \<Longrightarrow>
           fst (generateLogo h p w) = Inl (JsError ''Image generation failed or returned no images.'')"
    and "generateImages h = Inr response \<Longrightarrow> generatedImages response = Some (g # gs) \<Longrightarrow> gi_image g = None \<Longrightarrow>
           fst (generateLogo h p w) = Inl (TypeError_reading ''imageBytes'')"
    and "generateImages h = Inr response \<Longrightarrow> generatedImages response = Some (g # gs) \<Longrightarrow> gi_image g = Some i \<Longrightarrow>
           fst (generateLogo h p w) = Inr (imageBytes i)"
  using assms
  by (auto simp: generateLogo_def getApiKey_def Let_def split: sum.splits option.splits list.splits)

text \<open>
  C3. The claim is what the code is after, and the code misses a case. \<open>generateLogo\<close>
  raises when the remote call throws, when the list of images is missing or empty, and when
  the first entry has no image object; it sends one request and never a second one
  (\<open>generateLogo_outcomes\<close>). But it does not look at the bytes: for an answer whose first
  image carries no \<open>imageBytes\<close> it returns undefined and raises nothing. The handler then
  stores an Image Artifact without payload and reports no error. \<open>animateLogo\<close>, the
  sibling path, does test the innermost value it reads (\<open>!downloadLink\<close>).
\<close>

theorem generateLogo_missing_bytes:
  "fst (generateLogo host_no_bytes ''owl'' world0) = Inr None
   \<and> imageData (fst (handleGenerateLogo host_no_bytes initial_state world0))
       = Some \<lparr>base64 = None, mimeType = ''image/png''\<rparr>
   \<and> error (fst (handleGenerateLogo host_no_bytes initial_state world0)) = None"
  by (simp add: generateLogo_def getApiKey_def handleGenerateLogo_def handleGenerateLogo_settle_def
      handleGenerateLogo_request_def host_no_bytes_def host_ok_def world0_def initial_state_def
      trim_def isWhiteSpace_def)

subsection \<open>C7: validation failures\<close>

text \<open>
  C7. Each validation failure reports its message and does nothing else. With a description
  that is empty or made of white space only, \<open>handleGenerateLogo\<close> returns the state it got
  with the error set; with no Image Artifact, \<open>handleAnimateLogo\<close> does; with a file whose
  type does not start with \<open>image/\<close>, \<open>handleFileChange\<close> does. So the Image Artifact, the
  Video Resource Handle and the two busy flags are what they were, and the world is
  unchanged: no call left the program.
\<close>

theorem validation_failure_frame:
  "((\<forall>ch \<in> set (prompt c). isWhiteSpace ch) \<longrightarrow>
       handleGenerateLogo h c w = (c\<lparr>error := Some ''Please enter a description for your logo.''\<rparr>, w))
   \<and> (imageData c = None \<longrightarrow>
       handleAnimateLogo h ticks c w
         = Some (Returned, c\<lparr>error := Some ''Please generate or upload a logo first.''\<rparr>, w))
   \<and> (\<not> prefix ''image/'' (file_type f) \<longrightarrow>
       handleFileChange h (Some f) c w = (c\<lparr>error := Some ''Please upload a valid image file.''\<rparr>, w))"
  by (simp add: handleGenerateLogo_def handleAnimateLogo_def handleFileChange_def trim_empty_iff)

theorem validation_failure_frame_witness:
  "handleGenerateLogo host_ok (state_video\<lparr>prompt := [CHR 0x20, CHR 0x09, CHR 0x0A]\<rparr>) world0
     = (state_video\<lparr>prompt := [CHR 0x20, CHR 0x09, CHR 0x0A],
                    error := Some ''Please enter a description for your logo.''\<rparr>, world0)
   \<and> imageData initial_state = None
   \<and> handleAnimateLogo host_ok 0 initial_state world0
       = Some (Returned, initial_state\<lparr>error := Some ''Please generate or upload a logo first.''\<rparr>, world0)
   \<and> \<not> prefix ''image/'' (file_type text_file)
   \<and> handleFileChange host_ok (Some text_file) state_video world0
       = (state_video\<lparr>error := Some ''Please upload a valid image file.''\<rparr>, world0)"
proof -
  have h1: "\<forall>ch \<in> set (prompt (state_video\<lparr>prompt := [CHR 0x20, CHR 0x09, CHR 0x0A]\<rparr>)). isWhiteSpace ch"
    by (simp add: isWhiteSpace_def)
  have h2: "imageData initial_state = None" by (simp add: initial_state_def)
  have h3: "\<not> prefix ''image/'' (file_type text_file)" by (simp add: text_file_def)
  show ?thesis
    using validation_failure_frame[of "state_video\<lparr>prompt := [CHR 0x20, CHR 0x09, CHR 0x0A]\<rparr>" host_ok world0 0 text_file]
      validation_failure_frame[of initial_state host_ok world0 0 text_file]
      validation_failure_frame[of state_video host_ok world0 0 text_file]
      h1 h2 h3
    by simp
qed

subsection \<open>C9: a file that cannot be read\<close>

text \<open>
  C9. When a file passed the test of its type and reading it fails with \<open>e\<close>, the Image
  Artifact is empty afterwards, whatever it was, and the error shown is \<open>Failed to read
  file:\<close> followed by the message; the Video Resource Handle has been cleared as well. The
  witness also runs the other path on the same state: a file that is not an image leaves the
  artifact in place.
\<close>

theorem handleFileChange_read_failure:
  assumes "prefix ''image/'' (file_type f)" and "fileToBase64 h f = Inl e"
  shows "imageData (fst (handleFileChange h (Some f) c w)) = None
     \<and> error (fst (handleFileChange h (Some f) c w)) = Some (''Failed to read file: '' @ template (message e))
     \<and> videoUrl (fst (handleFileChange h (Some f) c w)) = None
     \<and> snd (handleFileChange h (Some f) c w) = w"
  using assms
  by (simp add: handleFileChange_def handleFileChange_settle_def handleFileChange_request_def)

theorem handleFileChange_read_failure_witness:
  "prefix ''image/'' (file_type png_file) \<and> fileToBase64 host_read_fails png_file = Inl (JsError ''read error'')
   \<and> imageData state_video = Some logo
   \<and> imageData (fst (handleFileChange host_read_fails (Some png_file) state_video world0)) = None
   \<and> error (fst (handleFileChange host_read_fails (Some png_file) state_video world0))
       = Some ''Failed to read file: read error''
   \<and> imageData (fst (handleFileChange host_read_fails (Some text_file) state_video world0)) = Some logo"
proof -
  have h1: "prefix ''image/'' (file_type png_file)" by (simp add: png_file_def)
  have h2: "fileToBase64 host_read_fails png_file = Inl (JsError ''read error'')"
    by (simp add: host_read_fails_def)
  have h3: "imageData state_video = Some logo"
    by (simp add: state_video_def state_logo_def)
  have h4: "imageData (fst (handleFileChange host_read_fails (Some text_file) state_video world0)) = Some logo"
    by (simp add: handleFileChange_def text_file_def state_video_def state_logo_def)
  from handleFileChange_read_failure[OF h1 h2, of state_video world0]
  show ?thesis using h1 h2 h3 h4 by simp
qed

subsection \<open>C4: extracting the location and downloading\<close>

lemma poll_returns_done_aux:
  "poll h key operation w = Some y \<Longrightarrow> (\<forall>operation'. fst y = Inr operation' \<longrightarrow> truthy_bool (op_done operation'))"
proof (induct rule: poll.raw_induct[rotated 1, consumes 1])
  case (1 poll' h key operation w y)
  show ?case
  proof (cases "truthy_bool (op_done operation)")
    case True
    with 1(2) show ?thesis by auto
  next
    case nd: False
    show ?thesis
    proof (cases "getVideosOperation h (status_calls w)")
      case (Inl e)
      with nd 1(2) show ?thesis by auto
    next
      case (Inr operation')
      with nd 1(2) have "poll' h key operation' (poll_round key operation w) = Some y" by simp
      from 1(1)[OF this] show ?thesis .
    qed
  qed
qed

lemma poll_returns_done:
  "poll h key operation w = Some (Inr operation', w') \<Longrightarrow> truthy_bool (op_done operation')"
  using poll_returns_done_aux[of h key operation w "(Inr operation', w')"] by simp

lemma animateLogo_after_poll:
  assumes "API_KEY h (env_reads w) = Some key" "key \<noteq> []"
    and "generateVideos h = Inr op0"
    and "poll h key op0 (w\<lparr>env_reads := env_reads w + 1,
            trace := trace w @ [GenerateVideos key (generateVideosParams image_data mime_type aspect_ratio)]\<rparr>)
          = Some (Inr operation, w3)"
  shows "animateLogo h image_data mime_type aspect_ratio w = Some (download h operation w3)"
  using assms by (simp add: animateLogo_def getApiKey_def Let_def)

text \<open>
  C4, as stated, fails. The job is finished and carries a location, yet \<open>animateLogo\<close>
  sends no download request: the address is built with a fresh read of the credential,
  and when that read finds none, \<open>getApiKey\<close> throws before \<open>fetch\<close> is called.
\<close>

theorem animateLogo_key_lost_counterexample:
  "truthy_bool (op_done op_final) \<and> downloadLink op_final = Some ''https://v/1?alt=media''
   \<and> map_option (\<lambda>(r, w'). (r, fetches (trace w')))
        (animateLogo host_key_lost (Some ''iVBOR'') ''image/png'' Ratio_16_9 world0)
       = Some (Inl (JsError ''API_KEY environment variable not set.''), [])"
  by (simp add: animateLogo_def getApiKey_def host_key_lost_def host_ok_def world0_def op_final_def
      poll.simps download_def downloadLink_def fetches_def)

text \<open>
  C4, amended. Let the poll loop of \<open>animateLogo\<close> end with the handle \<open>operation\<close>; the
  job is then finished. If the handle carries no location (none at any level of the answer,
  or an empty one), the call fails with the missing-link error and the world is the one the
  loop left: no download was tried. If it carries a location and the credential read at
  that moment is missing or empty, the call fails with the credential error and the trace
  is the one the loop left: no request was sent. If it carries the location \<open>link\<close> and
  the credential read at that moment is \<open>key2\<close>, the call sends one download request, to
  \<open>link\<close> followed by \<open>&key=\<close> and \<open>key2\<close>. When that request rejects, the call fails
  with the same error. When it is answered, the call fails with \<open>Failed to fetch video:\<close>
  and the status text if the answer is not OK; if it is OK, the call returns the object URL
  made from the body when the body is read, and fails with the error of the read when the
  read rejects.
\<close>

theorem animateLogo_extract_download:
  assumes key: "API_KEY h (env_reads w) = Some key" "key \<noteq> []"
    and submit: "generateVideos h = Inr op0"
    and polled: "poll h key op0 (w\<lparr>env_reads := env_reads w + 1,
            trace := trace w @ [GenerateVideos key (generateVideosParams image_data mime_type aspect_ratio)]\<rparr>)
          = Some (Inr operation, w3)"
  shows "truthy_bool (op_done operation)
    \<and> (\<not> truthy_string (downloadLink operation) \<longrightarrow>
         animateLogo h image_data mime_type aspect_ratio w
           = Some (Inl (JsError ''Video generation did not return a valid download link.''), w3))
    \<and> (truthy_string (downloadLink operation) \<and> \<not> truthy_string (API_KEY h (env_reads w3)) \<longrightarrow>
         animateLogo h image_data mime_type aspect_ratio w
           = Some (Inl (JsError ''API_KEY environment variable not set.''),
                   w3\<lparr>env_reads := env_reads w3 + 1\<rparr>))
    \<and> (\<forall>link key2. downloadLink operation = Some link \<and> link \<noteq> []
           \<and> API_KEY h (env_reads w3) = Some key2 \<and> key2 \<noteq> [] \<longrightarrow>
         (\<exists>r. animateLogo h image_data mime_type aspect_ratio w
                 = Some (r, w3\<lparr>env_reads := env_reads w3 + 1,
                               trace := trace w3 @ [Fetch (link @ ''&key='' @ key2)]\<rparr>)
            \<and> (\<forall>e. fetch h = Inl e \<longrightarrow> r = Inl e)
            \<and> (\<forall>resp. fetch h = Inr resp \<longrightarrow>
                  (\<not> ok resp \<longrightarrow> r = Inl (JsError (''Failed to fetch video: '' @ statusText resp)))
                \<and> (ok resp \<longrightarrow> (\<forall>b. blob resp = Inr b \<longrightarrow> r = Inr (createObjectURL h b))
                             \<and> (\<forall>e. blob resp = Inl e \<longrightarrow> r = Inl e)))))"
proof -
  have a: "animateLogo h image_data mime_type aspect_ratio w = Some (download h operation w3)"
    by (rule animateLogo_after_poll[OF key submit polled])
  have d: "truthy_bool (op_done operation)" by (rule poll_returns_done[OF polled])
  have m: "\<not> truthy_string (downloadLink operation) \<longrightarrow>
         animateLogo h image_data mime_type aspect_ratio w
           = Some (Inl (JsError ''Video generation did not return a valid download link.''), w3)"
    using a by (simp add: download_def)
  have k: "truthy_string (downloadLink operation) \<and> \<not> truthy_string (API_KEY h (env_reads w3)) \<longrightarrow>
         animateLogo h image_data mime_type aspect_ratio w
           = Some (Inl (JsError ''API_KEY environment variable not set.''),
                   w3\<lparr>env_reads := env_reads w3 + 1\<rparr>)"
    using a by (simp add: download_def getApiKey_def Let_def)
  have f: "\<forall>link key2. downloadLink operation = Some link \<and> link \<noteq> []
           \<and> API_KEY h (env_reads w3) = Some key2 \<and> key2 \<noteq> [] \<longrightarrow>
         (\<exists>r. animateLogo h image_data mime_type aspect_ratio w
                 = Some (r, w3\<lparr>env_reads := env_reads w3 + 1,
                               trace := trace w3 @ [Fetch (link @ ''&key='' @ key2)]\<rparr>)
            \<and> (\<forall>e. fetch h = Inl e \<longrightarrow> r = Inl e)
            \<and> (\<forall>resp. fetch h = Inr resp \<longrightarrow>
                  (\<not> ok resp \<longrightarrow> r = Inl (JsError (''Failed to fetch video: '' @ statusText resp)))
                \<and> (ok resp \<longrightarrow> (\<forall>b. blob resp = Inr b \<longrightarrow> r = Inr (createObjectURL h b))
                             \<and> (\<forall>e. blob resp = Inl e \<longrightarrow> r = Inl e))))"
  proof (intro allI impI)
    fix link key2
    assume h: "downloadLink operation = Some link \<and> link \<noteq> []
           \<and> API_KEY h (env_reads w3) = Some key2 \<and> key2 \<noteq> []"
    define w4 where "w4 = w3\<lparr>env_reads := env_reads w3 + 1,
                               trace := trace w3 @ [Fetch (link @ ''&key='' @ key2)]\<rparr>"
    have s: "snd (download h operation w3) = w4"
      using h by (auto simp: download_def getApiKey_def Let_def w4_def split: sum.splits)
    have r1: "\<forall>e. fetch h = Inl e \<longrightarrow> fst (download h operation w3) = Inl e"
      using h by (auto simp: download_def getApiKey_def Let_def split: sum.splits)
    have r2: "\<forall>resp. fetch h = Inr resp \<longrightarrow>
                  (\<not> ok resp \<longrightarrow> fst (download h operation w3) = Inl (JsError (''Failed to fetch video: '' @ statusText resp)))
                \<and> (ok resp \<longrightarrow> (\<forall>b. blob resp = Inr b \<longrightarrow> fst (download h operation w3) = Inr (createObjectURL h b))
                             \<and> (\<forall>e. blob resp = Inl e \<longrightarrow> fst (download h operation w3) = Inl e))"
      using h by (auto simp: download_def getApiKey_def Let_def split: sum.splits)
    have "animateLogo h image_data mime_type aspect_ratio w = Some (fst (download h operation w3), w4)"
      using a s by (metis prod.collapse)
    then show "\<exists>r. animateLogo h image_data mime_type aspect_ratio w
                 = Some (r, w3\<lparr>env_reads := env_reads w3 + 1,
                               trace := trace w3 @ [Fetch (link @ ''&key='' @ key2)]\<rparr>)
            \<and> (\<forall>e. fetch h = Inl e \<longrightarrow> r = Inl e)
            \<and> (\<forall>resp. fetch h = Inr resp \<longrightarrow>
                  (\<not> ok resp \<longrightarrow> r = Inl (JsError (''Failed to fetch video: '' @ statusText resp)))
                \<and> (ok resp \<longrightarrow> (\<forall>b. blob resp = Inr b \<longrightarrow> r = Inr (createObjectURL h b))
                             \<and> (\<forall>e. blob resp = Inl e \<longrightarrow> r = Inl e)))"
      using r1 r2 unfolding w4_def by blast
  qed
  show ?thesis using d m k f by blast
qed

theorem animateLogo_extract_download_witness:
  "API_KEY host_forbidden (env_reads world0) = Some ''KEY''
   \<and> generateVideos host_forbidden = Inr op_submitted
   \<and> poll host_forbidden ''KEY'' op_submitted
        (world0\<lparr>env_reads := env_reads world0 + 1,
           trace := trace world0 @ [GenerateVideos ''KEY'' (generateVideosParams (Some ''iVBOR'') ''image/png'' Ratio_16_9)]\<rparr>)
       = Some (Inr op_final,
               world0\<lparr>env_reads := 1, status_calls := 2,
                 trace := GenerateVideos ''KEY'' (generateVideosParams (Some ''iVBOR'') ''image/png'' Ratio_16_9)
                          # poll_events ''KEY'' [op_submitted, op_running]\<rparr>)
   \<and> downloadLink op_final = Some ''https://v/1?alt=media''
   \<and> fetch host_forbidden = Inr \<lparr>ok = False, statusText = ''Forbidden'', blob = Inr []\<rparr>
   \<and> animateLogo host_forbidden (Some ''iVBOR'') ''image/png'' Ratio_16_9 world0
       = Some (Inl (JsError ''Failed to fetch video: Forbidden''),
               world0\<lparr>env_reads := 2, status_calls := 2,
                 trace := GenerateVideos ''KEY'' (generateVideosParams (Some ''iVBOR'') ''image/png'' Ratio_16_9)
                          # poll_events ''KEY'' [op_submitted, op_running]
                          @ [Fetch ''https://v/1?alt=media&key=KEY'']\<rparr>)"
proof -
  define w3 where "w3 = world0\<lparr>env_reads := 1, status_calls := 2,
                 trace := GenerateVideos ''KEY'' (generateVideosParams (Some ''iVBOR'') ''image/png'' Ratio_16_9)
                          # poll_events ''KEY'' [op_submitted, op_running]\<rparr>"
  have h1: "API_KEY host_forbidden (env_reads world0) = Some ''KEY''"
    by (simp add: host_forbidden_def host_ok_def)
  have h2: "''KEY'' \<noteq> []" by simp
  have h3: "generateVideos host_forbidden = Inr op_submitted"
    by (simp add: host_forbidden_def host_ok_def)
  have h4: "poll host_forbidden ''KEY'' op_submitted
        (world0\<lparr>env_reads := env_reads world0 + 1,
           trace := trace world0 @ [GenerateVideos ''KEY'' (generateVideosParams (Some ''iVBOR'') ''image/png'' Ratio_16_9)]\<rparr>)
       = Some (Inr op_final, w3)"
    by (simp add: poll.simps poll_round_def poll_events_def host_forbidden_def host_ok_def world0_def
        op_submitted_def op_running_def op_final_def w3_def)
  have h5: "downloadLink op_final = Some ''https://v/1?alt=media''"
    by (simp add: downloadLink_def op_final_def)
  have h6: "API_KEY host_forbidden (env_reads w3) = Some ''KEY''"
    by (simp add: host_forbidden_def host_ok_def)
  have h7: "fetch host_forbidden = Inr \<lparr>ok = False, statusText = ''Forbidden'', blob = Inr []\<rparr>"
    by (simp add: host_forbidden_def host_ok_def)
  from animateLogo_extract_download[OF h1 h2 h3 h4] h5 h6 h7
  have "animateLogo host_forbidden (Some ''iVBOR'') ''image/png'' Ratio_16_9 world0
       = Some (Inl (JsError ''Failed to fetch video: Forbidden''),
               w3\<lparr>env_reads := env_reads w3 + 1,
                  trace := trace w3 @ [Fetch (''https://v/1?alt=media'' @ ''&key='' @ ''KEY'')]\<rparr>)"
    by auto
  then show ?thesis using h1 h3 h4 h5 h7 by (simp add: w3_def)
qed

subsection \<open>C10: the credential is read when a call starts\<close>

lemma download_trace_key:
  "\<exists>rest. trace (snd (download h operation w)) = trace w @ rest
     \<and> (rest = [] \<or> (\<exists>link key2. rest = [Fetch (link @ ''&key='' @ key2)]
                        \<and> API_KEY h (env_reads w) = Some key2 \<and> key2 \<noteq> []))"
proof (cases "truthy_string (downloadLink operation) \<and> truthy_string (API_KEY h (env_reads w))")
  case False
  then have "trace (snd (download h operation w)) = trace w @ []"
    by (auto simp: download_def getApiKey_def Let_def)
  then show ?thesis by blast
next
  case True
  then obtain link key2 where l: "downloadLink operation = Some link"
    and k: "API_KEY h (env_reads w) = Some key2" "key2 \<noteq> []"
    by (cases "downloadLink operation"; cases "API_KEY h (env_reads w)") auto
  have "trace (snd (download h operation w)) = trace w @ [Fetch (link @ ''&key='' @ key2)]"
    using True l k by (auto simp: download_def getApiKey_def Let_def split: sum.splits)
  then show ?thesis using k by blast
qed

lemma animateLogo_trace_key:
  assumes key: "API_KEY h (env_reads w) = Some key" "key \<noteq> []"
    and run: "animateLogo h image_data mime_type aspect_ratio w = Some (r, w')"
  shows "\<exists>ops rest. trace w' = trace w @ GenerateVideos key (generateVideosParams image_data mime_type aspect_ratio)
                                  # poll_events key ops @ rest
     \<and> (rest = [] \<or> (\<exists>link key2. rest = [Fetch (link @ ''&key='' @ key2)]
                        \<and> API_KEY h (env_reads w + 1) = Some key2 \<and> key2 \<noteq> []))"
proof -
  define w2 where "w2 = w\<lparr>env_reads := env_reads w + 1,
     trace := trace w @ [GenerateVideos key (generateVideosParams image_data mime_type aspect_ratio)]\<rparr>"
  show ?thesis
  proof (cases "generateVideos h")
    case (Inl e)
    with key run have "w' = w2" by (auto simp: animateLogo_def getApiKey_def Let_def w2_def)
    then have "trace w' = trace w @ GenerateVideos key (generateVideosParams image_data mime_type aspect_ratio)
                                  # poll_events key [] @ []"
      by (simp add: w2_def poll_events_def)
    then show ?thesis by blast
  next
    case (Inr op0)
    show ?thesis
    proof (cases "poll h key op0 w2")
      case None
      with key Inr run show ?thesis by (simp add: animateLogo_def getApiKey_def Let_def w2_def)
    next
      case (Some y)
      obtain r3 w3 where y: "y = (r3, w3)" by (cases y)
      from poll_frame(1,4)[OF Some[unfolded y]] obtain ops where
        e3: "env_reads w3 = env_reads w + 1"
        and t3: "trace w3 = trace w @ GenerateVideos key (generateVideosParams image_data mime_type aspect_ratio)
                                  # poll_events key ops"
        by (auto simp: w2_def)
      show ?thesis
      proof (cases r3)
        case (Inl e)
        with key \<open>generateVideos h = Inr op0\<close> Some y run have "w' = w3"
          by (simp add: animateLogo_def getApiKey_def Let_def w2_def)
        with t3 have "trace w' = trace w @ GenerateVideos key (generateVideosParams image_data mime_type aspect_ratio)
                                  # poll_events key ops @ []" by simp
        then show ?thesis by blast
      next
        case (Inr operation')
        with key \<open>generateVideos h = Inr op0\<close> Some y run have w': "w' = snd (download h operation' w3)"
          by (simp add: animateLogo_def getApiKey_def Let_def w2_def)
        from download_trace_key[of h operation' w3] obtain rest where
          "trace (snd (download h operation' w3)) = trace w3 @ rest"
          "rest = [] \<or> (\<exists>link key2. rest = [Fetch (link @ ''&key='' @ key2)]
                        \<and> API_KEY h (env_reads w3) = Some key2 \<and> key2 \<noteq> [])"
          by blast
        with w' t3 e3 have "trace w' = trace w @ GenerateVideos key (generateVideosParams image_data mime_type aspect_ratio)
                                  # poll_events key ops @ rest
          \<and> (rest = [] \<or> (\<exists>link key2. rest = [Fetch (link @ ''&key='' @ key2)]
                        \<and> API_KEY h (env_reads w + 1) = Some key2 \<and> key2 \<noteq> []))"
          by simp
        then show ?thesis by blast
      qed
    qed
  qed
qed

text \<open>
  C10. \<open>process.env.API_KEY\<close> is read once when a call of \<open>generateLogo\<close> or of
  \<open>animateLogo\<close> starts. If that read finds no credential (none, or the empty string), the
  call throws at once: the trace is unchanged, so no request was sent. If it finds \<open>key\<close>,
  that is the key of every request the call makes on the remote client: the one request of
  \<open>generateLogo\<close>, and the submit and all the status queries of \<open>animateLogo\<close>. The
  address of the download is built with the next read. So the value the variable has when
  a call starts is the one the call uses; the witness runs two calls in a row across a
  change of the variable.
\<close>

theorem credential_read_at_each_call:
  "(\<not> truthy_string (API_KEY h (env_reads w)) \<longrightarrow>
       generateLogo h p w
         = (Inl (JsError ''API_KEY environment variable not set.''), w\<lparr>env_reads := env_reads w + 1\<rparr>)
     \<and> animateLogo h image_data mime_type aspect_ratio w
         = Some (Inl (JsError ''API_KEY environment variable not set.''), w\<lparr>env_reads := env_reads w + 1\<rparr>))
   \<and> (\<forall>key. API_KEY h (env_reads w) = Some key \<and> key \<noteq> [] \<longrightarrow>
        trace (snd (generateLogo h p w)) = trace w @ [GenerateImages key (generateImagesParams p)]
        \<and> env_reads (snd (generateLogo h p w)) = env_reads w + 1
        \<and> (\<forall>r w'. animateLogo h image_data mime_type aspect_ratio w = Some (r, w') \<longrightarrow>
             (\<exists>ops rest.
                trace w' = trace w @ GenerateVideos key (generateVideosParams image_data mime_type aspect_ratio)
                                     # poll_events key ops @ rest
                \<and> (rest = [] \<or> (\<exists>link key2. rest = [Fetch (link @ ''&key='' @ key2)]
                                   \<and> API_KEY h (env_reads w + 1) = Some key2 \<and> key2 \<noteq> [])))))"
proof -
  have a: "\<not> truthy_string (API_KEY h (env_reads w)) \<longrightarrow>
       generateLogo h p w
         = (Inl (JsError ''API_KEY environment variable not set.''), w\<lparr>env_reads := env_reads w + 1\<rparr>)
     \<and> animateLogo h image_data mime_type aspect_ratio w
         = Some (Inl (JsError ''API_KEY environment variable not set.''), w\<lparr>env_reads := env_reads w + 1\<rparr>)"
    by (simp add: generateLogo_def animateLogo_def getApiKey_def Let_def)
  have b: "\<forall>key. API_KEY h (env_reads w) = Some key \<and> key \<noteq> [] \<longrightarrow>
        trace (snd (generateLogo h p w)) = trace w @ [GenerateImages key (generateImagesParams p)]
        \<and> env_reads (snd (generateLogo h p w)) = env_reads w + 1"
    by (auto simp: generateLogo_def getApiKey_def Let_def split: sum.splits option.splits list.splits)
  have c: "\<forall>key. API_KEY h (env_reads w) = Some key \<and> key \<noteq> [] \<longrightarrow>
        (\<forall>r w'. animateLogo h image_data mime_type aspect_ratio w = Some (r, w') \<longrightarrow>
             (\<exists>ops rest.
                trace w' = trace w @ GenerateVideos key (generateVideosParams image_data mime_type aspect_ratio)
                                     # poll_events key ops @ rest
                \<and> (rest = [] \<or> (\<exists>link key2. rest = [Fetch (link @ ''&key='' @ key2)]
                                   \<and> API_KEY h (env_reads w + 1) = Some key2 \<and> key2 \<noteq> []))))"
    using animateLogo_trace_key by blast
  show ?thesis using a b c by blast
qed

theorem credential_read_at_each_call_witness:
  "\<not> truthy_string (API_KEY host_no_key (env_reads world0))
   \<and> generateLogo host_no_key ''owl'' world0
       = (Inl (JsError ''API_KEY environment variable not set.''), world0\<lparr>env_reads := 1\<rparr>)
   \<and> animateLogo host_no_key (Some ''iVBOR'') ''image/png'' Ratio_16_9 world0
       = Some (Inl (JsError ''API_KEY environment variable not set.''), world0\<lparr>env_reads := 1\<rparr>)
   \<and> API_KEY host_key_changed 0 = Some ''OLD'' \<and> API_KEY host_key_changed 1 = Some ''NEW''
   \<and> trace (snd (generateLogo host_key_changed ''owl'' world0))
       = [GenerateImages ''OLD'' (generateImagesParams ''owl'')]
   \<and> trace (snd (generateLogo host_key_changed ''owl'' (snd (generateLogo host_key_changed ''owl'' world0))))
       = [GenerateImages ''OLD'' (generateImagesParams ''owl''), GenerateImages ''NEW'' (generateImagesParams ''owl'')]
   \<and> map_option (\<lambda>(r, w'). trace w')
        (animateLogo host_key_changed (Some ''iVBOR'') ''image/png'' Ratio_16_9 world0)
       = Some [GenerateVideos ''OLD'' (generateVideosParams (Some ''iVBOR'') ''image/png'' Ratio_16_9),
               Fetch ''https://v/1?alt=media&key=NEW'']"
proof -
  define w1 where "w1 = snd (generateLogo host_key_changed ''owl'' world0)"
  have n: "\<not> truthy_string (API_KEY host_no_key (env_reads world0))"
    by (simp add: host_no_key_def host_ok_def)
  have k0: "API_KEY host_key_changed (env_reads world0) = Some ''OLD'' \<and> ''OLD'' \<noteq> []"
    by (simp add: host_key_changed_def host_ok_def world0_def)
  have e0: "env_reads world0 = 0" "trace world0 = []" by (simp_all add: world0_def)
  have first: "trace w1 = [GenerateImages ''OLD'' (generateImagesParams ''owl'')]" "env_reads w1 = 1"
    using credential_read_at_each_call[of host_key_changed world0 "''owl''" "Some ''iVBOR''" "''image/png''" Ratio_16_9]
      k0 e0 unfolding w1_def by simp_all
  have k1: "API_KEY host_key_changed (env_reads w1) = Some ''NEW'' \<and> ''NEW'' \<noteq> []"
    using first(2) by (simp add: host_key_changed_def host_ok_def)
  have second: "trace (snd (generateLogo host_key_changed ''owl'' w1))
      = [GenerateImages ''OLD'' (generateImagesParams ''owl''), GenerateImages ''NEW'' (generateImagesParams ''owl'')]"
    using credential_read_at_each_call[of host_key_changed w1 "''owl''" "Some ''iVBOR''" "''image/png''" Ratio_16_9]
      k1 first(1) by simp
  have nk: "generateLogo host_no_key ''owl'' world0
       = (Inl (JsError ''API_KEY environment variable not set.''), world0\<lparr>env_reads := 1\<rparr>)
   \<and> animateLogo host_no_key (Some ''iVBOR'') ''image/png'' Ratio_16_9 world0
       = Some (Inl (JsError ''API_KEY environment variable not set.''), world0\<lparr>env_reads := 1\<rparr>)"
    using credential_read_at_each_call[of host_no_key world0 "''owl''" "Some ''iVBOR''" "''image/png''" Ratio_16_9]
      n e0 by simp
  have an: "map_option (\<lambda>(r, w'). trace w')
        (animateLogo host_key_changed (Some ''iVBOR'') ''image/png'' Ratio_16_9 world0)
       = Some [GenerateVideos ''OLD'' (generateVideosParams (Some ''iVBOR'') ''image/png'' Ratio_16_9),
               Fetch ''https://v/1?alt=media&key=NEW'']"
    by (simp add: animateLogo_def getApiKey_def host_key_changed_def host_ok_def world0_def op_final_def
        poll.simps download_def downloadLink_def)
  have ks: "API_KEY host_key_changed 0 = Some ''OLD'' \<and> API_KEY host_key_changed 1 = Some ''NEW''"
    by (simp add: host_key_changed_def host_ok_def)
  show ?thesis using n nk ks first(1) second an unfolding w1_def by simp
qed

subsection \<open>C5: the video and the image it was made from\<close>

lemma checkApiKey_frame:
  assumes "checkApiKey h s w = (cmp, s0, w0)"
  shows "\<exists>b. s0 = s\<lparr>apiKeySelected := b\<rparr>"
    and "next_interval_id w0 = next_interval_id w" and "intervals w0 = intervals w"
proof -
  have "s0 = s\<lparr>apiKeySelected := apiKeySelected s0\<rparr>"
    using assms by (auto simp: checkApiKey_def Let_def split: option.splits sum.splits)
  then show "\<exists>b. s0 = s\<lparr>apiKeySelected := b\<rparr>" by (rule exI)
  show "next_interval_id w0 = next_interval_id w" "intervals w0 = intervals w"
    using assms by (auto simp: checkApiKey_def Let_def split: option.splits sum.splits)
qed

lemma handleSelectApiKey_frame:
  assumes "handleSelectApiKey h s w = (cmp, s0, w0)"
  shows "\<exists>b. s0 = s\<lparr>apiKeySelected := b\<rparr>"
    and "next_interval_id w0 = next_interval_id w" and "intervals w0 = intervals w"
proof -
  have "s0 = s\<lparr>apiKeySelected := apiKeySelected s0\<rparr>"
    using assms by (auto simp: handleSelectApiKey_def Let_def split: option.splits sum.splits)
  then show "\<exists>b. s0 = s\<lparr>apiKeySelected := b\<rparr>" by (rule exI)
  show "next_interval_id w0 = next_interval_id w" "intervals w0 = intervals w"
    using assms by (auto simp: handleSelectApiKey_def Let_def split: option.splits sum.splits)
qed

lemma credentials_frame:
  assumes "handleAnimateLogo_credentials h c w = (cmp, s1, w1)"
  shows "\<exists>b. s1 = c\<lparr>apiKeySelected := b\<rparr>"
    and "next_interval_id w1 = next_interval_id w" and "intervals w1 = intervals w"
proof -
  obtain cmp0 s0 w0 where ck: "checkApiKey h c w = (cmp0, s0, w0)" by (cases "checkApiKey h c w")
  from checkApiKey_frame[OF ck] obtain b0 where
    s0: "s0 = c\<lparr>apiKeySelected := b0\<rparr>"
    and w0: "next_interval_id w0 = next_interval_id w" "intervals w0 = intervals w"
    by blast
  have "(\<exists>b. s1 = c\<lparr>apiKeySelected := b\<rparr>) \<and> next_interval_id w1 = next_interval_id w
        \<and> intervals w1 = intervals w"
  proof (cases "cmp0 = Returned \<and> \<not> apiKeySelected c")
    case False
    then have "s1 = s0 \<and> w1 = w0"
      using assms ck by (cases cmp0) (auto simp: handleAnimateLogo_credentials_def)
    then show ?thesis using s0 w0 by blast
  next
    case True
    then have sel: "handleSelectApiKey h s0 w0 = (cmp, s1, w1)"
      using assms ck by (auto simp: handleAnimateLogo_credentials_def)
    from handleSelectApiKey_frame[OF sel] obtain b where
      "s1 = s0\<lparr>apiKeySelected := b\<rparr>" "next_interval_id w1 = next_interval_id w0"
      "intervals w1 = intervals w0"
      by blast
    then have "s1 = c\<lparr>apiKeySelected := b\<rparr>" "next_interval_id w1 = next_interval_id w"
      "intervals w1 = intervals w"
      using s0 w0 by simp_all
    then show ?thesis by blast
  qed
  then show "\<exists>b. s1 = c\<lparr>apiKeySelected := b\<rparr>"
    and "next_interval_id w1 = next_interval_id w" and "intervals w1 = intervals w" by blast+
qed

lemma handleAnimateLogo_artifacts:
  assumes "handleAnimateLogo h ticks c w = Some (cmp, s', w')"
  shows "imageData s' = imageData c
     \<and> (videoUrl s' = videoUrl c \<or> videoUrl s' = None
        \<or> (\<exists>img w2 w3 url. imageData c = Some img
              \<and> animateLogo h (base64 img) (mimeType img) (aspectRatio c) w2 = Some (Inr url, w3)
              \<and> videoUrl s' = Some url))"
proof (cases "imageData c")
  case None
  with assms show ?thesis by (auto simp: handleAnimateLogo_def)
next
  case (Some img)
  obtain cmp1 s1 w1 where cr: "handleAnimateLogo_credentials h c w = (cmp1, s1, w1)"
    by (cases "handleAnimateLogo_credentials h c w")
  from credentials_frame(1)[OF cr] obtain b where s1: "s1 = c\<lparr>apiKeySelected := b\<rparr>" by blast
  show ?thesis
  proof (cases cmp1)
    case (Rejected e)
    with assms Some cr have "s' = s1" by (simp add: handleAnimateLogo_def)
    with s1 show ?thesis by simp
  next
    case Returned
    obtain s2 w2 where st: "handleAnimateLogo_start s1 w1 = (s2, w2)" by (cases "handleAnimateLogo_start s1 w1")
    have s2: "imageData s2 = imageData c" "videoUrl s2 = None"
      using st s1 by (auto simp: handleAnimateLogo_start_def)
    from assms Some cr Returned st obtain r w3 where
      a: "animateLogo h (base64 img) (mimeType img) (aspectRatio c) w2 = Some (r, w3)"
      by (cases "animateLogo h (base64 img) (mimeType img) (aspectRatio c) w2") (auto simp: handleAnimateLogo_def)
    obtain m iv where fired: "(fire_interval (next_interval_id w1) ^^ ticks) (s2, w3)
        = (s2\<lparr>videoLoadingMessage := m\<rparr>, w3\<lparr>intervals := iv\<rparr>)"
      using fire_funpow_frame by blast
    have fin: "(s', w') = handleAnimateLogo_settle (next_interval_id w1) r (s2\<lparr>videoLoadingMessage := m\<rparr>, w3\<lparr>intervals := iv\<rparr>)"
      using assms Some cr Returned st a fired by (simp add: handleAnimateLogo_def)
    show ?thesis
    proof (cases r)
      case (Inl e)
      with fin s2 have "imageData s' = imageData c" "videoUrl s' = None"
        by (auto simp: handleAnimateLogo_settle_def split: if_splits)
      then show ?thesis by simp
    next
      case (Inr url)
      with fin s2 have "imageData s' = imageData c" "videoUrl s' = Some url"
        by (auto simp: handleAnimateLogo_settle_def)
      with a Inr Some show ?thesis by blast
    qed
  qed
qed

text \<open>
  Taken one run at a time, the handlers keep the video with its image. A request for a new
  image that passes validation, and an upload of a file whose type is an image type, clear
  the Video Resource Handle before the new artifact is there: the state in which the handler
  awaits the outcome already has no handle (and it does not depend on the outcome), and
  whatever the outcome is, success or failure, the state the handler ends with has none. A
  run that ends with another Image Artifact than it started with ends with no Video Resource
  Handle, and a run of \<open>handleAnimateLogo\<close> leaves the artifact as it is.
\<close>

lemma video_cleared_in_each_run:
  "(trim (prompt c) \<noteq> [] \<longrightarrow>
      fst (handleGenerateLogo h c w)
        = handleGenerateLogo_settle (fst (generateLogo h (prompt c) w)) (handleGenerateLogo_request c)
      \<and> videoUrl (handleGenerateLogo_request c) = None
      \<and> videoUrl (fst (handleGenerateLogo h c w)) = None)
   \<and> (prefix ''image/'' (file_type f) \<longrightarrow>
      fst (handleFileChange h (Some f) c w)
        = handleFileChange_settle f (fileToBase64 h f) (handleFileChange_request c)
      \<and> videoUrl (handleFileChange_request c) = None
      \<and> videoUrl (fst (handleFileChange h (Some f) c w)) = None)
   \<and> (imageData (fst (handleGenerateLogo h c w)) \<noteq> imageData c \<longrightarrow>
        videoUrl (fst (handleGenerateLogo h c w)) = None)
   \<and> (imageData (fst (handleFileChange h file c w)) \<noteq> imageData c \<longrightarrow>
        videoUrl (fst (handleFileChange h file c w)) = None)
   \<and> (\<forall>cmp s' w'. handleAnimateLogo h ticks c w = Some (cmp, s', w') \<longrightarrow>
        imageData s' = imageData c)"
proof -
  have g: "trim (prompt c) \<noteq> [] \<longrightarrow>
      fst (handleGenerateLogo h c w)
        = handleGenerateLogo_settle (fst (generateLogo h (prompt c) w)) (handleGenerateLogo_request c)
      \<and> videoUrl (handleGenerateLogo_request c) = None
      \<and> videoUrl (fst (handleGenerateLogo h c w)) = None"
    by (auto simp: handleGenerateLogo_def handleGenerateLogo_settle_def handleGenerateLogo_request_def
        split: prod.splits sum.splits)
  have u: "prefix ''image/'' (file_type f) \<longrightarrow>
      fst (handleFileChange h (Some f) c w)
        = handleFileChange_settle f (fileToBase64 h f) (handleFileChange_request c)
      \<and> videoUrl (handleFileChange_request c) = None
      \<and> videoUrl (fst (handleFileChange h (Some f) c w)) = None"
    by (auto simp: handleFileChange_def handleFileChange_settle_def handleFileChange_request_def
        split: sum.splits)
  have gi: "imageData (fst (handleGenerateLogo h c w)) \<noteq> imageData c \<longrightarrow>
        videoUrl (fst (handleGenerateLogo h c w)) = None"
    by (auto simp: handleGenerateLogo_def handleGenerateLogo_settle_def handleGenerateLogo_request_def
        split: prod.splits sum.splits)
  have ui: "imageData (fst (handleFileChange h file c w)) \<noteq> imageData c \<longrightarrow>
        videoUrl (fst (handleFileChange h file c w)) = None"
    by (auto simp: handleFileChange_def handleFileChange_settle_def handleFileChange_request_def
        split: option.splits sum.splits)
  show ?thesis using g u gi ui handleAnimateLogo_artifacts[of h ticks c w] by blast
qed

text \<open>
  C5. The claim is what the component is after, and the code misses it. Each handler clears
  the Video Resource Handle before a new artifact arrives, whatever the outcome
  (\<open>video_cleared_in_each_run\<close>), and the controls are disabled on the two busy flags so
  that runs do not overlap. But \<open>handleFileChange\<close> sets no flag, unlike
  \<open>handleGenerateLogo\<close>, which sets its flag before it awaits: while a file is read the
  Animate button is enabled. In the run \<open>animate_during_upload\<close>, started with an artifact
  and a file of an image type, the button is pressed during the read. The submit carries
  the bytes of the artifact that was there (\<open>iVBOR\<close>); the file read ends and the artifact
  becomes the uploaded one (\<open>AAAA\<close>); the animation ends and its handle is stored. The
  state at the end holds the new artifact beside the video made for the old one.
\<close>

theorem animate_during_upload_mismatch:
  "imageData state_video = Some logo \<and> base64 logo = Some ''iVBOR''
   \<and> isGeneratingImage (handleFileChange_request state_video) = False
   \<and> isGeneratingVideo (handleFileChange_request state_video) = False
   \<and> map_option (\<lambda>(cmp, s', w'). (cmp, imageData s', videoUrl s', submitted_images (trace w')))
        (animate_during_upload host_ok png_file state_video world0)
       = Some (Returned, Some \<lparr>base64 = Some ''AAAA'', mimeType = ''image/png''\<rparr>,
               Some ''blob:mp4'', [Some ''iVBOR''])"
  by (simp add: animate_during_upload_def handleFileChange_request_def handleFileChange_settle_def
      handleAnimateLogo_credentials_def checkApiKey_def
      handleSelectApiKey_def handleAnimateLogo_start_def handleAnimateLogo_settle_def clearInterval_def
      animateLogo_def getApiKey_def poll.simps poll_round_def download_def downloadLink_def
      host_ok_def state_video_def state_logo_def initial_state_def logo_def png_file_def world0_def
      op_submitted_def op_running_def op_final_def submitted_images_def generateVideosParams_def)

subsection \<open>C6: the credential phase of \<open>handleAnimateLogo\<close>\<close>

text \<open>
  C6, as stated, fails. On a host that does not expose the credential interface, a request
  made while the selection state is false triggers no interaction and does not set the
  state to true: \<open>handleSelectApiKey\<close> does something only under its guard. The handler
  goes on to \<open>animateLogo\<close> all the same, and here it ends with a video and the state
  still false.
\<close>

theorem handleAnimateLogo_no_host_counterexample:
  "apiKeySelected state_logo = False \<and> imageData state_logo = Some logo
   \<and> handleAnimateLogo_credentials host_no_aistudio state_logo world0 = (Returned, state_logo, world0)
   \<and> map_option (\<lambda>(cmp, s', w'). (videoUrl s', apiKeySelected s', filter (\<lambda>e. e = OpenSelectKey) (trace w')))
        (handleAnimateLogo host_no_aistudio 0 state_logo world0)
       = Some (Some ''blob:mp4'', False, [])"
  by (simp add: handleAnimateLogo_def handleAnimateLogo_credentials_def checkApiKey_def
      handleSelectApiKey_def handleAnimateLogo_start_def handleAnimateLogo_settle_def clearInterval_def
      animateLogo_def getApiKey_def poll.simps poll_round_def download_def downloadLink_def
      host_no_aistudio_def host_ok_def state_logo_def initial_state_def logo_def world0_def
      op_submitted_def op_running_def op_final_def)

text \<open>
  C6, amended. \<open>handleAnimateLogo\<close> first lets \<open>checkApiKey\<close> ask the host; let that call
  return, leaving \<open>s0\<close> and \<open>w0\<close>, and let the selection state it leaves be the one the
  component showed when the request was made, so that there is one current state to speak
  of. If that state is true, nothing more happens in this phase. If it is false and the
  host exposes the interactive selection, the interaction is triggered and, on its return,
  the state is set to true; \<open>OpenSelectKey\<close> is the last event of the phase, so the host is
  not asked again. If it is false and the host does not expose the selection, nothing is
  triggered and the state is not set. In every case in which the phase returns, the handler
  then calls \<open>animateLogo\<close> with the artifact and the aspect ratio of the request. Requests
  for which the host's answer differs from the state shown are not covered.
\<close>

theorem handleAnimateLogo_credential_selection:
  assumes check: "checkApiKey h c w = (Returned, s0, w0)"
    and agree: "apiKeySelected s0 = apiKeySelected c"
  shows "(apiKeySelected s0 \<longrightarrow> handleAnimateLogo_credentials h c w = (Returned, s0, w0))
    \<and> (\<not> apiKeySelected s0 \<longrightarrow>
         (\<forall>a. window_aistudio h = Some a \<and> openSelectKey a = Some (Inr ()) \<longrightarrow>
            handleAnimateLogo_credentials h c w
              = (Returned, s0\<lparr>apiKeySelected := True\<rparr>, w0\<lparr>trace := trace w0 @ [OpenSelectKey]\<rparr>)))
    \<and> (\<not> apiKeySelected s0 \<longrightarrow>
         (window_aistudio h = None \<or> (\<exists>a. window_aistudio h = Some a \<and> openSelectKey a = None)) \<longrightarrow>
            handleAnimateLogo_credentials h c w = (Returned, s0, w0))
    \<and> (\<forall>img s1 w1. imageData c = Some img \<and> handleAnimateLogo_credentials h c w = (Returned, s1, w1) \<longrightarrow>
          handleAnimateLogo h ticks c w =
            map_option
              (\<lambda>(r, w3). (Returned,
                 handleAnimateLogo_settle (next_interval_id w1) r
                   ((fire_interval (next_interval_id w1) ^^ ticks) (fst (handleAnimateLogo_start s1 w1), w3))))
              (animateLogo h (base64 img) (mimeType img) (aspectRatio c) (snd (handleAnimateLogo_start s1 w1))))"
proof -
  have a: "apiKeySelected s0 \<longrightarrow> handleAnimateLogo_credentials h c w = (Returned, s0, w0)"
    using check agree by (simp add: handleAnimateLogo_credentials_def)
  have b: "\<not> apiKeySelected s0 \<longrightarrow>
         (\<forall>a. window_aistudio h = Some a \<and> openSelectKey a = Some (Inr ()) \<longrightarrow>
            handleAnimateLogo_credentials h c w
              = (Returned, s0\<lparr>apiKeySelected := True\<rparr>, w0\<lparr>trace := trace w0 @ [OpenSelectKey]\<rparr>))"
    using check agree by (simp add: handleAnimateLogo_credentials_def handleSelectApiKey_def)
  have c: "\<not> apiKeySelected s0 \<longrightarrow>
         (window_aistudio h = None \<or> (\<exists>a. window_aistudio h = Some a \<and> openSelectKey a = None)) \<longrightarrow>
            handleAnimateLogo_credentials h c w = (Returned, s0, w0)"
    using check agree by (auto simp: handleAnimateLogo_credentials_def handleSelectApiKey_def)
  have d: "\<forall>img s1 w1. imageData c = Some img \<and> handleAnimateLogo_credentials h c w = (Returned, s1, w1) \<longrightarrow>
          handleAnimateLogo h ticks c w =
            map_option
              (\<lambda>(r, w3). (Returned,
                 handleAnimateLogo_settle (next_interval_id w1) r
                   ((fire_interval (next_interval_id w1) ^^ ticks) (fst (handleAnimateLogo_start s1 w1), w3))))
              (animateLogo h (base64 img) (mimeType img) (aspectRatio c) (snd (handleAnimateLogo_start s1 w1)))"
    by (auto simp: handleAnimateLogo_def split: prod.splits option.splits)
  show ?thesis using a b c d by blast
qed

theorem handleAnimateLogo_credential_selection_witness:
  "checkApiKey host_unverified state_logo world0
     = (Returned, state_logo, world0\<lparr>trace := [HasSelectedApiKey]\<rparr>)
   \<and> \<not> apiKeySelected state_logo
   \<and> window_aistudio host_unverified = Some \<lparr>hasSelectedApiKey = Some (Inr False), openSelectKey = Some (Inr ())\<rparr>
   \<and> handleAnimateLogo_credentials host_unverified state_logo world0
       = (Returned, state_logo\<lparr>apiKeySelected := True\<rparr>, world0\<lparr>trace := [HasSelectedApiKey, OpenSelectKey]\<rparr>)
   \<and> checkApiKey host_ok state_video world0
       = (Returned, state_video, world0\<lparr>trace := [HasSelectedApiKey]\<rparr>)
   \<and> apiKeySelected state_video
   \<and> handleAnimateLogo_credentials host_ok state_video world0
       = (Returned, state_video, world0\<lparr>trace := [HasSelectedApiKey]\<rparr>)
   \<and> imageData state_logo = Some logo
   \<and> handleAnimateLogo host_unverified 0 state_logo world0
       = map_option
           (\<lambda>(r, w3). (Returned,
              handleAnimateLogo_settle 1 r
                (fst (handleAnimateLogo_start (state_logo\<lparr>apiKeySelected := True\<rparr>)
                        (world0\<lparr>trace := [HasSelectedApiKey, OpenSelectKey]\<rparr>)), w3)))
           (animateLogo host_unverified (Some ''iVBOR'') ''image/png'' Ratio_16_9
              (snd (handleAnimateLogo_start (state_logo\<lparr>apiKeySelected := True\<rparr>)
                      (world0\<lparr>trace := [HasSelectedApiKey, OpenSelectKey]\<rparr>))))"
proof -
  have h1: "checkApiKey host_unverified state_logo world0
     = (Returned, state_logo, world0\<lparr>trace := [HasSelectedApiKey]\<rparr>)"
    by (simp add: checkApiKey_def host_unverified_def host_ok_def state_logo_def initial_state_def world0_def)
  have g1: "apiKeySelected state_logo = apiKeySelected state_logo" by simp
  have h2: "\<not> apiKeySelected state_logo" by (simp add: state_logo_def initial_state_def)
  have h3: "window_aistudio host_unverified
      = Some \<lparr>hasSelectedApiKey = Some (Inr False), openSelectKey = Some (Inr ())\<rparr>"
    by (simp add: host_unverified_def)
  have h3': "openSelectKey \<lparr>hasSelectedApiKey = Some (Inr False), openSelectKey = Some (Inr ())\<rparr> = Some (Inr ())"
    by simp
  have h4: "checkApiKey host_ok state_video world0
     = (Returned, state_video, world0\<lparr>trace := [HasSelectedApiKey]\<rparr>)"
    by (simp add: checkApiKey_def host_ok_def state_video_def world0_def)
  have g4: "apiKeySelected state_video = apiKeySelected state_video" by simp
  have h5: "apiKeySelected state_video" by (simp add: state_video_def)
  have h6: "imageData state_logo = Some logo" by (simp add: state_logo_def)
  have c1: "handleAnimateLogo_credentials host_unverified state_logo world0
       = (Returned, state_logo\<lparr>apiKeySelected := True\<rparr>, world0\<lparr>trace := [HasSelectedApiKey, OpenSelectKey]\<rparr>)"
    using handleAnimateLogo_credential_selection[OF h1 g1, where ticks = 0] h2 h3 h3' by simp
  have c2: "handleAnimateLogo_credentials host_ok state_video world0
       = (Returned, state_video, world0\<lparr>trace := [HasSelectedApiKey]\<rparr>)"
    using handleAnimateLogo_credential_selection[OF h4 g4, where ticks = 0] h5 by simp
  have n: "next_interval_id (world0\<lparr>trace := [HasSelectedApiKey, OpenSelectKey]\<rparr>) = 1"
    by (simp add: world0_def)
  have l: "base64 logo = Some ''iVBOR''" "mimeType logo = ''image/png''" "aspectRatio state_logo = Ratio_16_9"
    by (simp_all add: logo_def state_logo_def initial_state_def)
  have c3: "handleAnimateLogo host_unverified 0 state_logo world0
       = map_option
           (\<lambda>(r, w3). (Returned,
              handleAnimateLogo_settle 1 r
                (fst (handleAnimateLogo_start (state_logo\<lparr>apiKeySelected := True\<rparr>)
                        (world0\<lparr>trace := [HasSelectedApiKey, OpenSelectKey]\<rparr>)), w3)))
           (animateLogo host_unverified (Some ''iVBOR'') ''image/png'' Ratio_16_9
              (snd (handleAnimateLogo_start (state_logo\<lparr>apiKeySelected := True\<rparr>)
                      (world0\<lparr>trace := [HasSelectedApiKey, OpenSelectKey]\<rparr>))))"
    using handleAnimateLogo_credential_selection[OF h1 g1, where ticks = 0] h6 c1 n l by simp
  show ?thesis using h1 h2 h3 h4 h5 h6 c1 c2 c3 by blast
qed

subsection \<open>C8: the rotating status message\<close>

lemma length_messages: "length messages = 5"
  by (simp add: messages_def)

lemma fire_funpow_rotation:
  assumes "intervals w i = Some iv" and "messageIndex iv < length messages"
    and "videoLoadingMessage s = messages ! messageIndex iv"
  shows "(fire_interval i ^^ k) (s, w) =
     (s\<lparr>videoLoadingMessage := messages ! ((messageIndex iv + k) mod length messages)\<rparr>,
      w\<lparr>intervals := (intervals w)(i \<mapsto> iv\<lparr>messageIndex := (messageIndex iv + k) mod length messages\<rparr>)\<rparr>)"
proof (induction k)
  case 0
  have "(intervals w)(i \<mapsto> iv) = intervals w" using assms(1) by (simp add: fun_upd_idem)
  then show ?case using assms by simp
next
  case (Suc k)
  define j where "j = (messageIndex iv + k) mod length messages"
  have prev: "(fire_interval i ^^ k) (s, w) =
      (s\<lparr>videoLoadingMessage := messages ! j\<rparr>,
       w\<lparr>intervals := (intervals w)(i \<mapsto> iv\<lparr>messageIndex := j\<rparr>)\<rparr>)"
    unfolding j_def by (rule Suc.IH)
  have step: "fire_interval i (s\<lparr>videoLoadingMessage := messages ! j\<rparr>,
                               w\<lparr>intervals := (intervals w)(i \<mapsto> iv\<lparr>messageIndex := j\<rparr>)\<rparr>) =
      (s\<lparr>videoLoadingMessage := messages ! ((j + 1) mod length messages)\<rparr>,
       w\<lparr>intervals := (intervals w)(i \<mapsto> iv\<lparr>messageIndex := (j + 1) mod length messages\<rparr>)\<rparr>)"
    by (simp add: fire_interval_def Let_def)
  have idx: "(j + 1) mod length messages = (messageIndex iv + Suc k) mod length messages"
    by (simp add: j_def mod_Suc_eq)
  have "(fire_interval i ^^ Suc k) (s, w) = fire_interval i ((fire_interval i ^^ k) (s, w))" by simp
  also have "\<dots> = fire_interval i (s\<lparr>videoLoadingMessage := messages ! j\<rparr>,
                               w\<lparr>intervals := (intervals w)(i \<mapsto> iv\<lparr>messageIndex := j\<rparr>)\<rparr>)"
    by (simp only: prev)
  also note step
  finally have f: "(fire_interval i ^^ Suc k) (s, w) =
      (s\<lparr>videoLoadingMessage := messages ! ((j + 1) mod length messages)\<rparr>,
       w\<lparr>intervals := (intervals w)(i \<mapsto> iv\<lparr>messageIndex := (j + 1) mod length messages\<rparr>)\<rparr>)" .
  show ?case by (simp only: f idx)
qed

text \<open>
  C8, as stated, fails. The component registers no cleanup, so when it is unmounted while
  \<open>animateLogo\<close> is awaited the timer is still running, and its next firing still changes
  the message.
\<close>

theorem unmount_keeps_timer_counterexample:
  "intervals (snd (unmount (handleAnimateLogo_start state_logo world0))) (next_interval_id world0)
     = Some \<lparr>delay = 4000, messageIndex = 0\<rparr>
   \<and> videoLoadingMessage (fst (unmount (handleAnimateLogo_start state_logo world0)))
       = ''Warming up the animation engine...''
   \<and> videoLoadingMessage
        (fst (fire_interval (next_interval_id world0) (unmount (handleAnimateLogo_start state_logo world0))))
       = ''Choreographing pixel movements...''"
  by (simp add: unmount_def handleAnimateLogo_start_def fire_interval_def messages_def world0_def)

text \<open>
  C8, amended. Before it calls \<open>animateLogo\<close> the handler shows the first of the five
  messages and starts a timer with a period of 4000 ms. While the call is awaited, the
  message after \<open>k\<close> firings is the one at position \<open>k mod 5\<close> of the list, whatever the
  gateway does to the rest of the world in the meantime: the rotation only depends on the
  number of firings. When the call settles, by a result or by an error, and after any
  number of firings, the handler returns with the timer cleared, the message empty and the
  busy flag off, and a later firing of that timer changes nothing. Nothing clears the timer
  on an unmount, and nothing does while the call has not settled.
\<close>

theorem handleAnimateLogo_message_rotation:
  "intervals (snd (handleAnimateLogo_start s w)) (next_interval_id w) = Some \<lparr>delay = 4000, messageIndex = 0\<rparr>
   \<and> videoLoadingMessage (fst (handleAnimateLogo_start s w)) = messages ! 0
   \<and> (\<forall>w3 :: world. intervals w3 = intervals (snd (handleAnimateLogo_start s w)) \<longrightarrow>
         videoLoadingMessage
           (fst ((fire_interval (next_interval_id w) ^^ k) (fst (handleAnimateLogo_start s w), w3)))
           = messages ! (k mod length messages)
         \<and> intervals
             (snd ((fire_interval (next_interval_id w) ^^ k) (fst (handleAnimateLogo_start s w), w3)))
             (next_interval_id w)
           = Some \<lparr>delay = 4000, messageIndex = k mod length messages\<rparr>)
   \<and> (\<forall>s' w'. imageData c \<noteq> None \<and> handleAnimateLogo h ticks c w = Some (Returned, s', w') \<longrightarrow>
         intervals w' (next_interval_id w) = None \<and> videoLoadingMessage s' = []
         \<and> isGeneratingVideo s' = False
         \<and> fire_interval (next_interval_id w) (s', w') = (s', w'))"
proof -
  have a: "intervals (snd (handleAnimateLogo_start s w)) (next_interval_id w) = Some \<lparr>delay = 4000, messageIndex = 0\<rparr>
      \<and> videoLoadingMessage (fst (handleAnimateLogo_start s w)) = messages ! 0"
    by (simp add: handleAnimateLogo_start_def)
  have b: "\<forall>w3 :: world. intervals w3 = intervals (snd (handleAnimateLogo_start s w)) \<longrightarrow>
         videoLoadingMessage
           (fst ((fire_interval (next_interval_id w) ^^ k) (fst (handleAnimateLogo_start s w), w3)))
           = messages ! (k mod length messages)
         \<and> intervals
             (snd ((fire_interval (next_interval_id w) ^^ k) (fst (handleAnimateLogo_start s w), w3)))
             (next_interval_id w)
           = Some \<lparr>delay = 4000, messageIndex = k mod length messages\<rparr>"
  proof (intro allI impI)
    fix w3 :: world assume e: "intervals w3 = intervals (snd (handleAnimateLogo_start s w))"
    have i: "intervals w3 (next_interval_id w) = Some \<lparr>delay = 4000, messageIndex = 0\<rparr>"
      using e a by simp
    have j: "messageIndex \<lparr>delay = 4000, messageIndex = 0\<rparr> < length messages"
      by (simp add: length_messages)
    have m: "videoLoadingMessage (fst (handleAnimateLogo_start s w))
        = messages ! messageIndex \<lparr>delay = 4000, messageIndex = 0\<rparr>"
      using a by simp
    show "videoLoadingMessage
           (fst ((fire_interval (next_interval_id w) ^^ k) (fst (handleAnimateLogo_start s w), w3)))
           = messages ! (k mod length messages)
         \<and> intervals
             (snd ((fire_interval (next_interval_id w) ^^ k) (fst (handleAnimateLogo_start s w), w3)))
             (next_interval_id w)
           = Some \<lparr>delay = 4000, messageIndex = k mod length messages\<rparr>"
      by (simp add: fire_funpow_rotation[OF i j m])
  qed
  have c: "\<forall>s' w'. imageData c \<noteq> None \<and> handleAnimateLogo h ticks c w = Some (Returned, s', w') \<longrightarrow>
         intervals w' (next_interval_id w) = None \<and> videoLoadingMessage s' = []
         \<and> isGeneratingVideo s' = False
         \<and> fire_interval (next_interval_id w) (s', w') = (s', w')"
  proof (intro allI impI)
    fix s' w'
    assume h: "imageData c \<noteq> None \<and> handleAnimateLogo h ticks c w = Some (Returned, s', w')"
    then obtain img where img: "imageData c = Some img" by auto
    obtain cmp1 s1 w1 where cr: "handleAnimateLogo_credentials h c w = (cmp1, s1, w1)"
      by (cases "handleAnimateLogo_credentials h c w")
    have ret: "cmp1 = Returned"
      using h img cr by (cases cmp1) (auto simp: handleAnimateLogo_def)
    have id: "next_interval_id w1 = next_interval_id w" by (rule credentials_frame(2)[OF cr])
    obtain s2 w2 where st: "handleAnimateLogo_start s1 w1 = (s2, w2)"
      by (cases "handleAnimateLogo_start s1 w1")
    from h img cr ret st obtain r w3 where
      an: "animateLogo h (base64 img) (mimeType img) (aspectRatio c) w2 = Some (r, w3)"
      by (cases "animateLogo h (base64 img) (mimeType img) (aspectRatio c) w2")
         (auto simp: handleAnimateLogo_def)
    obtain m iv where fired: "(fire_interval (next_interval_id w1) ^^ ticks) (s2, w3)
        = (s2\<lparr>videoLoadingMessage := m\<rparr>, w3\<lparr>intervals := iv\<rparr>)"
      using fire_funpow_frame by blast
    have fin: "(s', w') = handleAnimateLogo_settle (next_interval_id w)
        r (s2\<lparr>videoLoadingMessage := m\<rparr>, w3\<lparr>intervals := iv\<rparr>)"
      using h img cr ret st an fired id by (simp add: handleAnimateLogo_def)
    have w': "intervals w' (next_interval_id w) = None"
      using fin by (simp add: handleAnimateLogo_settle_def clearInterval_def)
    have s': "videoLoadingMessage s' = [] \<and> isGeneratingVideo s' = False"
      using fin by (auto simp: handleAnimateLogo_settle_def split: sum.splits if_splits)
    have "fire_interval (next_interval_id w) (s', w') = (s', w')"
      using w' by (simp add: fire_interval_def)
    then show "intervals w' (next_interval_id w) = None \<and> videoLoadingMessage s' = []
         \<and> isGeneratingVideo s' = False
         \<and> fire_interval (next_interval_id w) (s', w') = (s', w')"
      using w' s' by simp
  qed
  show ?thesis using a b c by blast
qed

lemma handleAnimateLogo_settles:
  assumes img: "imageData c = Some img"
    and cred: "handleAnimateLogo_credentials h c w = (Returned, s1, w1)"
    and settled: "map_option fst (animateLogo h (base64 img) (mimeType img) (aspectRatio c)
                    (snd (handleAnimateLogo_start s1 w1))) = Some r"
  shows "\<exists>s' w'. handleAnimateLogo h ticks c w = Some (Returned, s', w')
     \<and> videoUrl s' = (case r of Inr url \<Rightarrow> Some url | Inl e \<Rightarrow> None)"
proof -
  obtain s2 w2 where st: "handleAnimateLogo_start s1 w1 = (s2, w2)"
    by (cases "handleAnimateLogo_start s1 w1")
  have v2: "videoUrl s2 = None" using st by (auto simp: handleAnimateLogo_start_def)
  from settled st obtain w3 where
    an: "animateLogo h (base64 img) (mimeType img) (aspectRatio c) w2 = Some (r, w3)"
    by (cases "animateLogo h (base64 img) (mimeType img) (aspectRatio c) w2") auto
  obtain m iv where fired: "(fire_interval (next_interval_id w1) ^^ ticks) (s2, w3)
      = (s2\<lparr>videoLoadingMessage := m\<rparr>, w3\<lparr>intervals := iv\<rparr>)"
    using fire_funpow_frame by blast
  obtain s' w' where fin: "handleAnimateLogo_settle (next_interval_id w1) r
      (s2\<lparr>videoLoadingMessage := m\<rparr>, w3\<lparr>intervals := iv\<rparr>) = (s', w')"
    by (cases "handleAnimateLogo_settle (next_interval_id w1) r (s2\<lparr>videoLoadingMessage := m\<rparr>, w3\<lparr>intervals := iv\<rparr>)")
  have run: "handleAnimateLogo h ticks c w = Some (Returned, s', w')"
    using img cred st an fired fin by (simp add: handleAnimateLogo_def)
  have "videoUrl s' = (case r of Inr url \<Rightarrow> Some url | Inl e \<Rightarrow> None)"
    using fin v2 by (auto simp: handleAnimateLogo_settle_def split: sum.splits if_splits)
  with run show ?thesis by blast
qed

lemma handleAnimateLogo_ok_returns:
  "\<exists>s' w'. handleAnimateLogo host_ok 7 state_logo world0 = Some (Returned, s', w')
     \<and> videoUrl s' = Some ''blob:mp4''"
proof -
  have h1: "imageData state_logo = Some logo" by (simp add: state_logo_def)
  have h2: "handleAnimateLogo_credentials host_ok state_logo world0
       = (Returned, state_logo\<lparr>apiKeySelected := True\<rparr>, world0\<lparr>trace := [HasSelectedApiKey, OpenSelectKey]\<rparr>)"
    by (simp add: handleAnimateLogo_credentials_def checkApiKey_def handleSelectApiKey_def
        host_ok_def state_logo_def initial_state_def world0_def)
  have h3: "map_option fst (animateLogo host_ok (base64 logo) (mimeType logo) (aspectRatio state_logo)
        (snd (handleAnimateLogo_start (state_logo\<lparr>apiKeySelected := True\<rparr>)
                (world0\<lparr>trace := [HasSelectedApiKey, OpenSelectKey]\<rparr>))))
       = Some (Inr ''blob:mp4'')"
    by (simp add: animateLogo_def getApiKey_def handleAnimateLogo_start_def host_ok_def world0_def
        poll.simps poll_round_def download_def downloadLink_def op_submitted_def op_running_def op_final_def)
  from handleAnimateLogo_settles[OF h1 h2 h3, of 7] show ?thesis by simp
qed

lemma handleAnimateLogo_not_found_returns:
  "\<exists>s' w'. handleAnimateLogo host_not_found 7 state_logo world0 = Some (Returned, s', w')
     \<and> videoUrl s' = None"
proof -
  have h1: "imageData state_logo = Some logo" by (simp add: state_logo_def)
  have h2: "handleAnimateLogo_credentials host_not_found state_logo world0
       = (Returned, state_logo\<lparr>apiKeySelected := True\<rparr>, world0\<lparr>trace := [HasSelectedApiKey, OpenSelectKey]\<rparr>)"
    by (simp add: handleAnimateLogo_credentials_def checkApiKey_def handleSelectApiKey_def
        host_not_found_def host_ok_def state_logo_def initial_state_def world0_def)
  have h3: "map_option fst (animateLogo host_not_found (base64 logo) (mimeType logo) (aspectRatio state_logo)
        (snd (handleAnimateLogo_start (state_logo\<lparr>apiKeySelected := True\<rparr>)
                (world0\<lparr>trace := [HasSelectedApiKey, OpenSelectKey]\<rparr>))))
       = Some (Inl (JsError ''ApiError: Requested entity was not found.''))"
    by (simp add: animateLogo_def getApiKey_def handleAnimateLogo_start_def host_not_found_def host_ok_def world0_def)
  from handleAnimateLogo_settles[OF h1 h2 h3, of 7] show ?thesis by simp
qed

theorem handleAnimateLogo_message_rotation_witness:
  "imageData state_logo \<noteq> None
   \<and> videoLoadingMessage
        (fst ((fire_interval (next_interval_id world0) ^^ 7) (handleAnimateLogo_start state_logo world0)))
       = ''Rendering cinematic magic...''
   \<and> (\<exists>s' w'. handleAnimateLogo host_ok 7 state_logo world0 = Some (Returned, s', w')
         \<and> videoUrl s' = Some ''blob:mp4''
         \<and> intervals w' (next_interval_id world0) = None \<and> videoLoadingMessage s' = []
         \<and> fire_interval (next_interval_id world0) (s', w') = (s', w'))
   \<and> (\<exists>s' w'. handleAnimateLogo host_not_found 7 state_logo world0 = Some (Returned, s', w')
         \<and> videoUrl s' = None
         \<and> intervals w' (next_interval_id world0) = None \<and> videoLoadingMessage s' = []
         \<and> fire_interval (next_interval_id world0) (s', w') = (s', w'))"
proof -
  have h1: "imageData state_logo \<noteq> None" by (simp add: state_logo_def)
  note rot = handleAnimateLogo_message_rotation[of state_logo world0 7 state_logo host_ok 7]
  have "videoLoadingMessage
        (fst ((fire_interval (next_interval_id world0) ^^ 7)
               (fst (handleAnimateLogo_start state_logo world0), snd (handleAnimateLogo_start state_logo world0))))
       = messages ! (7 mod length messages)"
    using rot by blast
  then have a: "videoLoadingMessage
        (fst ((fire_interval (next_interval_id world0) ^^ 7) (handleAnimateLogo_start state_logo world0)))
       = ''Rendering cinematic magic...''"
    by (simp add: messages_def)
  obtain s' w' where ok: "handleAnimateLogo host_ok 7 state_logo world0 = Some (Returned, s', w')"
      "videoUrl s' = Some ''blob:mp4''"
    using handleAnimateLogo_ok_returns by blast
  have b: "\<exists>s' w'. handleAnimateLogo host_ok 7 state_logo world0 = Some (Returned, s', w')
         \<and> videoUrl s' = Some ''blob:mp4''
         \<and> intervals w' (next_interval_id world0) = None \<and> videoLoadingMessage s' = []
         \<and> fire_interval (next_interval_id world0) (s', w') = (s', w')"
    using rot h1 ok by blast
  obtain t' v' where nf: "handleAnimateLogo host_not_found 7 state_logo world0 = Some (Returned, t', v')"
      "videoUrl t' = None"
    using handleAnimateLogo_not_found_returns by blast
  have c: "\<exists>s' w'. handleAnimateLogo host_not_found 7 state_logo world0 = Some (Returned, s', w')
         \<and> videoUrl s' = None
         \<and> intervals w' (next_interval_id world0) = None \<and> videoLoadingMessage s' = []
         \<and> fire_interval (next_interval_id world0) (s', w') = (s', w')"
    using handleAnimateLogo_message_rotation[of state_logo world0 7 state_logo host_not_found 7] h1 nf by blast
  show ?thesis using h1 a b c by blast
qed

end
